theory Spec2Isabelle
  imports Complex_Main
begin

section \<open>JavaScript values and library functions used by the server\<close>

text \<open>
  The filesystem MCP server is TypeScript running on Node.js (POSIX paths). Its three
  source modules (tools.ts, resources.ts, prompts.ts) are embedded below function by
  function. This section models what they take from the runtime.

  Strings are HOL strings; \<open>length\<close> stands for JavaScript's \<open>.length\<close>. A thrown
  JavaScript error is a value \<open>JsError message\<close>, and a computation that may throw returns
  \<open>js_error + 'a\<close> with \<open>Inl\<close> for the error thrown (a rejected promise) and \<open>Inr\<close>
  for the value returned (a fulfilled promise).
\<close>

datatype js_error = JsError (message: string)

text \<open>\<open>quoted s\<close> is the template \<open>'${s}'\<close>.\<close>

definition quoted :: "string \<Rightarrow> string" where
  "quoted s = [CHR 0x27] @ s @ [CHR 0x27]"

definition startsWith :: "string \<Rightarrow> string \<Rightarrow> bool" where
  "startsWith s p = (take (length p) s = p)"

definition endsWith :: "string \<Rightarrow> string \<Rightarrow> bool" where
  "endsWith s p = (length p \<le> length s \<and> drop (length s - length p) s = p)"

text \<open>\<open>includes s p\<close> is \<open>s.includes(p)\<close>: \<open>p\<close> occurs in \<open>s\<close> as a contiguous substring.\<close>

fun includes_str :: "string \<Rightarrow> string \<Rightarrow> bool" where
  "includes_str [] p = (p = [])"
| "includes_str (c # s) p = (startsWith (c # s) p \<or> includes_str s p)"

text \<open>\<open>Array.prototype.join\<close>.\<close>

fun join_with :: "string \<Rightarrow> string list \<Rightarrow> string" where
  "join_with sep [] = []"
| "join_with sep [x] = x"
| "join_with sep (x # y # ys) = x @ sep @ join_with sep (y # ys)"

text \<open>\<open>String.prototype.split\<close> on a one-character separator.\<close>

fun split_on :: "char \<Rightarrow> string \<Rightarrow> string list" where
  "split_on d [] = [[]]"
| "split_on d (c # cs) =
     (case split_on d cs of
        [] \<Rightarrow> [[c]]
      | (seg # segs) \<Rightarrow> (if c = d then [] # seg # segs else (c # seg) # segs))"

definition padEnd :: "nat \<Rightarrow> string \<Rightarrow> string" where
  "padEnd n s = s @ replicate (n - length s) CHR '' ''"

definition padStart :: "nat \<Rightarrow> string \<Rightarrow> string" where
  "padStart n s = replicate (n - length s) CHR '' '' @ s"

text \<open>\<open>s.replace(a, b)\<close> with one-character strings: the first occurrence only.\<close>

fun replace_first :: "char \<Rightarrow> char \<Rightarrow> string \<Rightarrow> string" where
  "replace_first a b [] = []"
| "replace_first a b (c # cs) = (if c = a then b # cs else c # replace_first a b cs)"

text \<open>
  \<open>toLowerCase\<close> on the ASCII letters. The extension tables it is compared with are
  ASCII and contain no \<open>k\<close>, the only ASCII letter that a non-ASCII character lowers to.
\<close>

definition lower_char :: "char \<Rightarrow> char" where
  "lower_char c =
     (let n = (of_char c :: nat) in if 65 \<le> n \<and> n \<le> 90 then char_of (n + 32) else c)"

definition toLowerCase :: "string \<Rightarrow> string" where
  "toLowerCase s = map lower_char s"

subsection \<open>Numbers as text\<close>

definition digit_char :: "nat \<Rightarrow> char" where
  "digit_char d = ''0123456789abcdef'' ! (d mod 16)"

text \<open>\<open>n.toString(b)\<close> for a natural number \<open>n\<close> and a radix \<open>2 \<le> b \<le> 16\<close>.\<close>

function to_radix :: "nat \<Rightarrow> nat \<Rightarrow> string" where
  "to_radix b n =
     (if n < b \<and> 2 \<le> b then [digit_char n]
      else if b < 2 then []
      else to_radix b (n div b) @ [digit_char (n mod b)])"
  by pat_completeness auto
termination
  by (relation "measure snd") auto

declare to_radix.simps [simp del]

definition show_nat :: "nat \<Rightarrow> string" where
  "show_nat n = to_radix 10 n"

text \<open>
  \<open>(num / den).toFixed(f)\<close> for natural numbers: the decimal with \<open>f\<close> fraction digits
  nearest to the quotient, the larger one on a tie (the quotients used are sizes divided
  by 1024, exact as doubles).
\<close>

definition toFixed :: "nat \<Rightarrow> nat \<Rightarrow> nat \<Rightarrow> string" where
  "toFixed num den f =
     (let scaled = (2 * num * 10 ^ f + den) div (2 * den);
          whole = show_nat (scaled div 10 ^ f);
          frac = show_nat (scaled mod 10 ^ f)
      in if f = 0 then whole
         else whole @ ''.'' @ replicate (f - length frac) CHR ''0'' @ frac)"

subsection \<open>Dates\<close>

text \<open>
  A \<open>Date\<close> holds a time value in milliseconds since the epoch, or is invalid (\<open>None\<close>,
  also beyond \<open>8.64e15\<close> ms). \<open>toISOString\<close> throws a RangeError on an invalid date and
  otherwise prints the proleptic Gregorian UTC date.
\<close>

datatype js_date = Date (time_value: "int option")

definition pad_digits :: "nat \<Rightarrow> nat \<Rightarrow> string" where
  "pad_digits w n = (let s = show_nat n in replicate (w - length s) CHR ''0'' @ s)"

definition civil_from_days :: "int \<Rightarrow> int \<times> nat \<times> nat" where
  "civil_from_days days =
     (let z = days + 719468;
          era = z div 146097;
          doe = z mod 146097;
          yoe = (doe - doe div 1460 + doe div 36524 - doe div 146096) div 365;
          doy = doe - (365 * yoe + yoe div 4 - yoe div 100);
          mp = (5 * doy + 2) div 153;
          d = doy - (153 * mp + 2) div 5 + 1;
          m = (if mp < 10 then mp + 3 else mp - 9);
          y = yoe + era * 400 + (if m \<le> 2 then 1 else 0)
      in (y, nat m, nat d))"

definition iso_year :: "int \<Rightarrow> string" where
  "iso_year y =
     (if 0 \<le> y \<and> y \<le> 9999 then pad_digits 4 (nat y)
      else (if y < 0 then ''-'' else ''+'') @ pad_digits 6 (nat \<bar>y\<bar>))"

definition toISOString :: "js_date \<Rightarrow> js_error + string" where
  "toISOString d =
     (case time_value d of
        None \<Rightarrow> Inl (JsError ''Invalid time value'')
      | Some t \<Rightarrow>
          if \<bar>t\<bar> > 8640000000000000 then Inl (JsError ''Invalid time value'')
          else
            (let days = t div 86400000;
                 ms = nat (t mod 86400000);
                 (y, m, dd) = civil_from_days days
             in Inr (iso_year y @ ''-'' @ pad_digits 2 m @ ''-'' @ pad_digits 2 dd @ ''T'' @
                     pad_digits 2 (ms div 3600000) @ '':'' @
                     pad_digits 2 (ms div 60000 mod 60) @ '':'' @
                     pad_digits 2 (ms div 1000 mod 60) @ ''.'' @
                     pad_digits 3 (ms mod 1000) @ ''Z'')))"

subsection \<open>The \<open>path\<close> module (POSIX)\<close>

text \<open>
  \<open>normalizeString\<close> drops empty and \<open>.\<close> segments and lets \<open>..\<close> remove the segment before
  it; above the root \<open>..\<close> is kept only when \<open>allowAboveRoot\<close> holds.
\<close>

fun normalize_segments :: "bool \<Rightarrow> string list \<Rightarrow> string list \<Rightarrow> string list" where
  "normalize_segments allow [] acc = acc"
| "normalize_segments allow (s # ss) acc =
     (if s = [] \<or> s = ''.'' then normalize_segments allow ss acc
      else if s = ''..'' then
        (if acc \<noteq> [] \<and> last acc \<noteq> ''..'' then normalize_segments allow ss (butlast acc)
         else if allow then normalize_segments allow ss (acc @ [''..''])
         else normalize_segments allow ss acc)
      else normalize_segments allow ss (acc @ [s]))"

definition normalizeString :: "string \<Rightarrow> bool \<Rightarrow> string" where
  "normalizeString p allowAboveRoot =
     join_with ''/'' (normalize_segments allowAboveRoot (split_on CHR ''/'' p) [])"

definition isAbsolute :: "string \<Rightarrow> bool" where
  "isAbsolute p = startsWith p ''/''"

definition path_normalize :: "string \<Rightarrow> string" where
  "path_normalize p =
     (if p = [] then ''.''
      else
        (let trailingSeparator = endsWith p ''/'';
             n = normalizeString p (\<not> isAbsolute p)
         in if n = [] then
              (if isAbsolute p then ''/'' else if trailingSeparator then ''./'' else ''.'')
            else
              (let n' = (if trailingSeparator then n @ ''/'' else n)
               in if isAbsolute p then ''/'' @ n' else n')))"

text \<open>\<open>path.join(...paths)\<close>: the non-empty arguments joined by \<open>/\<close>, then normalised.\<close>

definition path_join :: "string list \<Rightarrow> string" where
  "path_join paths =
     (let parts = filter (\<lambda>p. p \<noteq> []) paths
      in if parts = [] then ''.'' else path_normalize (join_with ''/'' parts))"

text \<open>
  \<open>path.resolve(...paths)\<close>: the arguments are taken from the right until one is
  absolute, with the working directory behind the first of them.
  \<open>resolve_args\<close> receives them in that order (last argument first).
\<close>

fun resolve_args :: "string list \<Rightarrow> string \<times> bool" where
  "resolve_args [] = ([], False)"
| "resolve_args (p # ps) =
     (if p = [] then resolve_args ps
      else if isAbsolute p then (p @ ''/'', True)
      else (let (r, a) = resolve_args ps in (r @ p @ ''/'', a)))"

definition path_resolve :: "string \<Rightarrow> string list \<Rightarrow> string" where
  "path_resolve cwd paths =
     (let (resolvedPath, resolvedAbsolute) = resolve_args (rev paths @ [cwd]);
          n = normalizeString resolvedPath (\<not> resolvedAbsolute)
      in if resolvedAbsolute then ''/'' @ n else if n \<noteq> [] then n else ''.'')"

text \<open>
  \<open>path.dirname(p)\<close>: trailing separators and the last segment are dropped; the first
  character is never consumed.
\<close>

definition path_dirname :: "string \<Rightarrow> string" where
  "path_dirname p =
     (if p = [] then ''.''
      else
        (let hasRoot = (hd p = CHR ''/'');
             body = rev (dropWhile (\<lambda>c. c \<noteq> CHR ''/'')
                      (dropWhile (\<lambda>c. c = CHR ''/'') (rev (tl p))))
         in if body = [] then (if hasRoot then ''/'' else ''.'')
            else if hasRoot \<and> length body = 1 then ''//''
            else hd p # butlast body))"

text \<open>
  \<open>path.extname(p)\<close>: from the last dot of the last segment to its end; empty when that
  segment has no dot, starts with its only dot, or is \<open>..\<close>.
\<close>

definition path_extname :: "string \<Rightarrow> string" where
  "path_extname p =
     (let trimmed = rev (dropWhile (\<lambda>c. c = CHR ''/'') (rev p));
          base = rev (takeWhile (\<lambda>c. c \<noteq> CHR ''/'') (rev trimmed));
          ext_rev = takeWhile (\<lambda>c. c \<noteq> CHR ''.'') (rev base);
          stem = take (length base - length ext_rev - 1) base
      in if CHR ''.'' \<notin> set base \<or> stem = [] \<or> base = ''..'' then []
         else CHR ''.'' # rev ext_rev)"

text \<open>
  \<open>path.relative(from, to)\<close>: both are resolved, the common leading segments are
  dropped, and every remaining segment of \<open>from\<close> becomes \<open>..\<close>.
\<close>

fun drop_common :: "string list \<Rightarrow> string list \<Rightarrow> string list \<times> string list" where
  "drop_common (x # xs) (y # ys) = (if x = y then drop_common xs ys else (x # xs, y # ys))"
| "drop_common xs ys = (xs, ys)"

definition path_relative :: "string \<Rightarrow> string \<Rightarrow> string \<Rightarrow> string" where
  "path_relative cwd from to =
     (if from = to then []
      else
        (let f = path_resolve cwd [from];
             t = path_resolve cwd [to]
         in if f = t then []
            else
              (let segs = (\<lambda>p. filter (\<lambda>s. s \<noteq> []) (split_on CHR ''/'' p));
                   (fr, tr) = drop_common (segs f) (segs t)
               in join_with ''/'' (map (\<lambda>_. ''..'') fr @ tr))))"

section \<open>The file system as the server sees it\<close>

text \<open>
  \<open>fs.Stats\<close> as \<open>fs.stat\<close> fulfils it, and \<open>fs.Dirent\<close> as \<open>fs.readdir\<close> with
  \<open>withFileTypes\<close> lists it (a symbolic link, socket or device is \<open>OtherKind\<close>: neither
  \<open>isFile()\<close> nor \<open>isDirectory()\<close>).
\<close>

record stats =
  st_isDirectory :: bool
  st_isSymbolicLink :: bool
  st_size :: nat
  st_mode :: nat
  st_birthtime :: js_date
  st_mtime :: js_date
  st_atime :: js_date

datatype entry_kind = RegularFile | Directory | OtherKind

datatype dirent = Dirent (name: string) (kind: entry_kind)

definition isDirectory :: "dirent \<Rightarrow> bool" where
  "isDirectory e = (kind e = Directory)"

definition isFile :: "dirent \<Rightarrow> bool" where
  "isFile e = (kind e = RegularFile)"

text \<open>
  What \<open>fs.readdir\<close> answers for a directory and, for each entry, what it answers for
  that entry's own path when a walker descends into it: either the call rejects, or it
  lists entries. A walk over a real directory tree is finite, so the answers form a tree
  and the walkers below recurse over it.
\<close>

datatype fs_tree = ReaddirFails js_error | Entries "(dirent \<times> fs_tree) list"

text \<open>
  The runtime a handler runs against, over a file-system state \<open>'w\<close>. Reading calls
  answer from the state; writing calls answer and give the next state. \<open>cwd\<close> is
  \<open>process.cwd()\<close>. \<open>fs_readFile\<close> takes the encoding (\<open>None\<close>: the raw bytes of a
  Buffer). \<open>new_RegExp\<close> compiles a pattern with flags into its \<open>test\<close> function, or
  throws a SyntaxError.
\<close>

record 'w node_env =
  cwd :: string
  fs_access :: "string \<Rightarrow> 'w \<Rightarrow> js_error + unit"
  fs_stat :: "string \<Rightarrow> 'w \<Rightarrow> js_error + stats"
  fs_readFile :: "string \<Rightarrow> string option \<Rightarrow> 'w \<Rightarrow> js_error + string"
  fs_readdir :: "string \<Rightarrow> 'w \<Rightarrow> fs_tree"
  fs_mkdir :: "string \<Rightarrow> 'w \<Rightarrow> (js_error + unit) \<times> 'w"
  fs_writeFile :: "string \<Rightarrow> string \<Rightarrow> 'w \<Rightarrow> (js_error + unit) \<times> 'w"
  fs_appendFile :: "string \<Rightarrow> string \<Rightarrow> 'w \<Rightarrow> (js_error + unit) \<times> 'w"
  fs_unlink :: "string \<Rightarrow> 'w \<Rightarrow> (js_error + unit) \<times> 'w"
  new_RegExp :: "string \<Rightarrow> string \<Rightarrow> js_error + (string \<Rightarrow> bool)"

text \<open>
  The message of the error Node raises when a system call finds no entry at a path:
  \<open>ENOENT: no such file or directory, stat '/x'\<close>.
\<close>

definition enoent :: "string \<Rightarrow> string \<Rightarrow> js_error" where
  "enoent syscall p =
     JsError (''ENOENT: no such file or directory, '' @ syscall @ '' '' @ quoted p)"

text \<open>
  A handler that may also write is a function of the file-system state: it throws or
  returns, and leaves a state. \<open>io_try body handler\<close> is \<open>try { body } catch (e) { handler e }\<close>.
\<close>

type_synonym ('w, 'a) io = "'w \<Rightarrow> (js_error + 'a) \<times> 'w"

definition io_return :: "'a \<Rightarrow> ('w, 'a) io" where
  "io_return v = (\<lambda>w. (Inr v, w))"

definition io_throw :: "js_error \<Rightarrow> ('w, 'a) io" where
  "io_throw e = (\<lambda>w. (Inl e, w))"

definition io_read :: "('w \<Rightarrow> js_error + 'a) \<Rightarrow> ('w, 'a) io" where
  "io_read f = (\<lambda>w. (f w, w))"

definition io_bind :: "('w, 'a) io \<Rightarrow> ('a \<Rightarrow> ('w, 'b) io) \<Rightarrow> ('w, 'b) io" where
  "io_bind m f = (\<lambda>w. case m w of (Inl e, w') \<Rightarrow> (Inl e, w') | (Inr v, w') \<Rightarrow> f v w')"

definition io_try :: "('w, 'a) io \<Rightarrow> (js_error \<Rightarrow> ('w, 'a) io) \<Rightarrow> ('w, 'a) io" where
  "io_try body handler = (\<lambda>w. case body w of (Inl e, w') \<Rightarrow> handler e w' | (Inr v, w') \<Rightarrow> (Inr v, w'))"

section \<open>resources.ts\<close>

record ResourceInfo =
  ri_uri :: string
  ri_name :: string
  ri_description :: string
  ri_mimeType :: string

record ResourceContent =
  rc_uri :: string
  rc_mimeType :: string
  rc_text :: "string option"
  rc_blob :: "string option"

text \<open>The em dash of the description template, as its UTF-8 bytes.\<close>

definition em_dash :: string where
  "em_dash = [CHR 0xE2, CHR 0x80, CHR 0x94]"

definition candidates :: "(string \<times> string \<times> string) list" where
  "candidates =
     [(''README.md'', ''text/markdown'', ''Project README''),
      (''package.json'', ''application/json'', ''Node.js package manifest''),
      (''tsconfig.json'', ''application/json'', ''TypeScript configuration''),
      (''.env'', ''text/plain'', ''Environment variables'')]"

text \<open>One turn of the loop over the candidates: push the entry when \<open>fs.access\<close> fulfils.\<close>

definition push_candidate ::
  "'w node_env \<Rightarrow> 'w \<Rightarrow> string \<times> string \<times> string \<Rightarrow> ResourceInfo list \<Rightarrow> ResourceInfo list" where
  "push_candidate env w c resources =
     (case c of (file, mime, desc) \<Rightarrow>
        (let fullPath = path_join [cwd env, file]
         in case fs_access env fullPath w of
              Inr _ \<Rightarrow>
                resources @
                  [\<lparr>ri_uri = ''file://'' @ fullPath,
                    ri_name = file,
                    ri_description = desc @ '' '' @ em_dash @ '' '' @ fullPath,
                    ri_mimeType = mime\<rparr>]
            | Inl _ \<Rightarrow> resources))"

definition buildStaticResources :: "'w node_env \<Rightarrow> 'w \<Rightarrow> ResourceInfo list" where
  "buildStaticResources env w =
     (let resources = fold (push_candidate env w) candidates []
      in resources @
           [\<lparr>ri_uri = ''file://'' @ cwd env @ ''/'',
             ri_name = ''Working Directory'',
             ri_description = ''Current working directory: '' @ cwd env,
             ri_mimeType = ''text/plain''\<rparr>])"

text \<open>\<open>buildDirectoryListing\<close>: \<open>fs.readdir\<close> may reject, and the rejection is passed on.\<close>

definition listing_line :: "dirent \<Rightarrow> string" where
  "listing_line entry = (if isDirectory entry then ''[DIR] '' else ''[FILE]'') @ ''  '' @ name entry"

definition buildDirectoryListing :: "'w node_env \<Rightarrow> string \<Rightarrow> 'w \<Rightarrow> js_error + string" where
  "buildDirectoryListing env dirPath w =
     (case fs_readdir env dirPath w of
        ReaddirFails e \<Rightarrow> Inl e
      | Entries entries \<Rightarrow>
          Inr (join_with ''\<newline>''
                 ((''Directory listing: '' @ dirPath @ ''\<newline>'') # map (listing_line \<circ> fst) entries)))"

definition textMimes :: "string list" where
  "textMimes =
     [''.ts'', ''.tsx'', ''.js'', ''.mjs'', ''.json'', ''.md'', ''.txt'',
      ''.html'', ''.css'', ''.yaml'', ''.yml'', ''.toml'', ''.csv'',
      ''.sh'', ''.py'', ''.rs'', ''.go'', ''.xml'', ''.env'']"

text \<open>\<open>Buffer.toString("base64")\<close>.\<close>

definition b64_char :: "nat \<Rightarrow> char" where
  "b64_char n =
     ''ABCDEFGHIJKLMNOPQRSTUVWXYZabcdefghijklmnopqrstuvwxyz0123456789+/'' ! (n mod 64)"

fun base64 :: "string \<Rightarrow> string" where
  "base64 [] = []"
| "base64 [a] =
     (let x = (of_char a :: nat)
      in [b64_char (x div 4), b64_char (x mod 4 * 16), CHR ''='', CHR ''=''])"
| "base64 [a, b] =
     (let x = (of_char a :: nat); y = (of_char b :: nat)
      in [b64_char (x div 4), b64_char (x mod 4 * 16 + y div 16), b64_char (y mod 16 * 4),
          CHR ''=''])"
| "base64 (a # b # c # rest) =
     (let x = (of_char a :: nat); y = (of_char b :: nat); z = (of_char c :: nat)
      in [b64_char (x div 4), b64_char (x mod 4 * 16 + y div 16),
          b64_char (y mod 16 * 4 + z div 64), b64_char (z mod 64)] @ base64 rest)"

text \<open>
  \<open>readResource\<close>. The directory-style branch runs before the \<open>try\<close>, so a rejection of
  its \<open>readdir\<close> leaves the function as it is; inside the \<open>try\<close> every rejection is
  rethrown as \<open>Cannot read resource ...\<close>.
\<close>

definition cannot_read :: "string \<Rightarrow> js_error \<Rightarrow> js_error" where
  "cannot_read uri e =
     JsError (''Cannot read resource '' @ quoted uri @ '': '' @ message e)"

definition readResource :: "'w node_env \<Rightarrow> string \<Rightarrow> 'w \<Rightarrow> js_error + ResourceContent" where
  "readResource env uri w =
     (if \<not> startsWith uri ''file://'' then
        Inl (JsError (''Unsupported URI scheme. Only '' @ quoted ''file://'' @
                      '' URIs are supported.''))
      else
        (let rawPath = drop (length ''file://'') uri
         in if endsWith rawPath ''/'' then
              (let dirPath = (if butlast rawPath \<noteq> [] then butlast rawPath else ''/'')
               in case buildDirectoryListing env dirPath w of
                    Inl e \<Rightarrow> Inl e
                  | Inr listing \<Rightarrow>
                      Inr \<lparr>rc_uri = uri, rc_mimeType = ''text/plain'', rc_text = Some listing,
                           rc_blob = None\<rparr>)
            else
              (case fs_stat env rawPath w of
                 Inl e \<Rightarrow> Inl (cannot_read uri e)
               | Inr st \<Rightarrow>
                   if st_isDirectory st then
                     (case buildDirectoryListing env rawPath w of
                        Inl e \<Rightarrow> Inl (cannot_read uri e)
                      | Inr listing \<Rightarrow>
                          Inr \<lparr>rc_uri = uri, rc_mimeType = ''text/plain'',
                               rc_text = Some listing, rc_blob = None\<rparr>)
                   else
                     (let ext = toLowerCase (path_extname rawPath)
                      in if ext \<in> set textMimes \<or> st_size st < 512 * 1024 then
                           (case fs_readFile env rawPath (Some ''utf8'') w of
                              Inl e \<Rightarrow> Inl (cannot_read uri e)
                            | Inr txt \<Rightarrow>
                                Inr \<lparr>rc_uri = uri, rc_mimeType = ''text/plain'',
                                     rc_text = Some txt, rc_blob = None\<rparr>)
                         else
                           (case fs_readFile env rawPath None w of
                              Inl e \<Rightarrow> Inl (cannot_read uri e)
                            | Inr buffer \<Rightarrow>
                                Inr \<lparr>rc_uri = uri, rc_mimeType = ''application/octet-stream'',
                                     rc_text = None, rc_blob = Some (base64 buffer)\<rparr>)))))"


section \<open>tools.ts\<close>

datatype content_block = TextContent string

record ToolResult =
  content :: "content_block list"
  isError :: "bool option"

definition ok :: "string \<Rightarrow> ToolResult" where
  "ok txt = \<lparr>content = [TextContent txt], isError = None\<rparr>"

definition err :: "string \<Rightarrow> ToolResult" where
  "err msg = \<lparr>content = [TextContent (''ERROR: '' @ msg)], isError = Some True\<rparr>"

definition safePath :: "'w node_env \<Rightarrow> string \<Rightarrow> string" where
  "safePath env inputPath = path_resolve (cwd env) [cwd env, inputPath]"

subsection \<open>read\_file\<close>

definition read_file_handler ::
  "'w node_env \<Rightarrow> string \<Rightarrow> string option \<Rightarrow> ('w, ToolResult) io" where
  "read_file_handler env path encoding_arg =
     (let filePath = safePath env path;
          encoding = (case encoding_arg of None \<Rightarrow> ''utf8'' | Some enc \<Rightarrow> enc)
      in io_try
           (io_bind (io_read (fs_stat env filePath)) (\<lambda>stats.
              if st_isDirectory stats then
                io_return (err (quoted filePath @ '' is a directory. Use list_directory instead.''))
              else
                io_bind (io_read (fs_readFile env filePath (Some encoding))) (\<lambda>content.
                  let sizeKB = toFixed (st_size stats) 1024 2
                  in io_return
                       (ok (''File: '' @ filePath @ ''\<newline>Size: '' @ sizeKB @
                            '' KB\<newline>Encoding: '' @ encoding @
                            ''\<newline>\<newline>--- Content ---\<newline>'' @ content)))))
           (\<lambda>e. io_return (err (''Could not read file: '' @ message e))))"

subsection \<open>write\_file\<close>

definition write_file_handler ::
  "'w node_env \<Rightarrow> string \<Rightarrow> string \<Rightarrow> bool option \<Rightarrow> ('w, ToolResult) io" where
  "write_file_handler env path content_arg append_arg =
     (let filePath = safePath env path;
          appendMode = (case append_arg of None \<Rightarrow> False | Some b \<Rightarrow> b)
      in io_try
           (io_bind (fs_mkdir env (path_dirname filePath)) (\<lambda>_.
              if appendMode then
                io_bind (fs_appendFile env filePath content_arg) (\<lambda>_.
                  io_return
                    (ok (''Appended '' @ show_nat (length content_arg) @ '' characters to '' @
                         quoted filePath @ ''.'')))
              else
                io_bind (fs_writeFile env filePath content_arg) (\<lambda>_.
                  io_return
                    (ok (''Wrote '' @ show_nat (length content_arg) @ '' characters to '' @
                         quoted filePath @ ''.'')))))
           (\<lambda>e. io_return (err (''Could not write file: '' @ message e))))"

subsection \<open>list\_directory\<close>

text \<open>
  \<open>collectEntries\<close> has no \<open>try\<close>: a rejected \<open>readdir\<close> or \<open>stat\<close>, or a date that
  cannot be printed, throws out of it. The directory's \<open>readdir\<close> answer is the tree.
\<close>

definition file_line :: "string \<Rightarrow> stats \<Rightarrow> js_error + string" where
  "file_line relativePath stat =
     (let sizeKB = toFixed (st_size stat) 1024 1
      in case toISOString (st_mtime stat) of
           Inl e \<Rightarrow> Inl e
         | Inr isoString \<Rightarrow>
             (let modified = take 19 (replace_first CHR ''T'' CHR '' '' isoString)
              in Inr (''[FILE] '' @ padEnd 50 relativePath @ '' '' @ padStart 8 sizeKB @
                      '' KB  '' @ modified)))"

fun collectEntries ::
  "'w node_env \<Rightarrow> 'w \<Rightarrow> string \<Rightarrow> string \<Rightarrow> fs_tree \<Rightarrow> bool \<Rightarrow> string list \<Rightarrow>
     js_error + string list"
and collectEntries_loop ::
  "'w node_env \<Rightarrow> 'w \<Rightarrow> string \<Rightarrow> string \<Rightarrow> (dirent \<times> fs_tree) list \<Rightarrow> bool \<Rightarrow> string list \<Rightarrow>
     js_error + string list" where
  "collectEntries env w baseDir currentDir (ReaddirFails e) recursive lines = Inl e"
| "collectEntries env w baseDir currentDir (Entries entries) recursive lines =
     collectEntries_loop env w baseDir currentDir entries recursive lines"
| "collectEntries_loop env w baseDir currentDir [] recursive lines = Inr lines"
| "collectEntries_loop env w baseDir currentDir ((entry, sub) # rest) recursive lines =
     (let fullPath = path_join [currentDir, name entry];
          relativePath = path_relative (cwd env) baseDir fullPath
      in if isDirectory entry then
           (let lines1 = lines @ [''[DIR]  '' @ relativePath @ ''/'']
            in if recursive then
                 (case collectEntries env w baseDir fullPath sub recursive lines1 of
                    Inl e \<Rightarrow> Inl e
                  | Inr lines2 \<Rightarrow>
                      collectEntries_loop env w baseDir currentDir rest recursive lines2)
               else collectEntries_loop env w baseDir currentDir rest recursive lines1)
         else if isFile entry then
           (case fs_stat env fullPath w of
              Inl e \<Rightarrow> Inl e
            | Inr stat \<Rightarrow>
                (case file_line relativePath stat of
                   Inl e \<Rightarrow> Inl e
                 | Inr line \<Rightarrow>
                     collectEntries_loop env w baseDir currentDir rest recursive (lines @ [line])))
         else collectEntries_loop env w baseDir currentDir rest recursive lines)"

definition list_directory_handler ::
  "'w node_env \<Rightarrow> string \<Rightarrow> bool option \<Rightarrow> ('w, ToolResult) io" where
  "list_directory_handler env path recursive_arg =
     (let dirPath = safePath env path;
          recursive = (case recursive_arg of None \<Rightarrow> False | Some b \<Rightarrow> b)
      in io_try
           (io_bind (io_read (fs_stat env dirPath)) (\<lambda>stats.
              if \<not> st_isDirectory stats then
                io_return (err (quoted dirPath @ '' is not a directory. Use read_file to read files.''))
              else
                io_bind
                  (io_read (\<lambda>w. collectEntries env w dirPath dirPath (fs_readdir env dirPath w)
                                   recursive [''Directory: '' @ dirPath @ ''\<newline>'']))
                  (\<lambda>lines.
                     io_return
                       (ok (join_with ''\<newline>''
                              (lines @ [''\<newline>Total entries: '' @ show_nat (length lines - 1)]))))))
           (\<lambda>e. io_return (err (''Could not list directory: '' @ message e))))"

subsection \<open>search\_files\<close>

text \<open>
  The pattern becomes a regular expression in two passes: each of the characters
  \<^verbatim>\<open>. + ^ $ { } ( ) | [ ]\<close> and the backslash gets a backslash in front, then every
  \<^verbatim>\<open>*\<close> becomes \<^verbatim>\<open>.*\<close>.
\<close>

definition escape_specials :: "string \<Rightarrow> string" where
  "escape_specials s =
     concat (map (\<lambda>c. if c \<in> set (''.+^${}()|[]'' @ [CHR 0x5C]) then [CHR 0x5C, c] else [c]) s)"

definition replace_stars :: "string \<Rightarrow> string" where
  "replace_stars s = concat (map (\<lambda>c. if c = CHR ''*'' then ''.*'' else [c]) s)"

definition skipped_directories :: "string list" where
  "skipped_directories = [''node_modules'', ''.git'', ''dist'', ''.cache'']"

text \<open>
  \<open>walkAndMatch\<close>: \<open>maxResults\<close> is a JavaScript number, compared with the length of
  \<open>results\<close> before the directory is read and before every entry. The \<open>try\<close> around the
  loop turns a rejected \<open>readdir\<close> into a plain return.
\<close>

fun walkAndMatch ::
  "string \<Rightarrow> fs_tree \<Rightarrow> (string \<Rightarrow> bool) \<Rightarrow> string list \<Rightarrow> real \<Rightarrow> string list"
and walkAndMatch_loop ::
  "string \<Rightarrow> (dirent \<times> fs_tree) list \<Rightarrow> (string \<Rightarrow> bool) \<Rightarrow> string list \<Rightarrow> real \<Rightarrow> string list" where
  "walkAndMatch dir tree regex results maxResults =
     (if real (length results) \<ge> maxResults then results
      else
        (case tree of
           ReaddirFails e \<Rightarrow> results
         | Entries entries \<Rightarrow> walkAndMatch_loop dir entries regex results maxResults))"
| "walkAndMatch_loop dir [] regex results maxResults = results"
| "walkAndMatch_loop dir ((entry, sub) # rest) regex results maxResults =
     (if real (length results) \<ge> maxResults then results
      else
        (let fullPath = path_join [dir, name entry]
         in if isDirectory entry then
              (if name entry \<in> set skipped_directories then
                 walkAndMatch_loop dir rest regex results maxResults
               else
                 walkAndMatch_loop dir rest regex
                   (walkAndMatch fullPath sub regex results maxResults) maxResults)
            else if isFile entry \<and> regex (name entry) then
              walkAndMatch_loop dir rest regex (results @ [fullPath]) maxResults
            else walkAndMatch_loop dir rest regex results maxResults))"

text \<open>
  To say where a returned path lies: \<open>files_below dir tree\<close> lists every regular file of
  the tree under \<open>dir\<close>, each with the names of the directories descended from \<open>dir\<close> to
  reach it (outermost first) and with the path the walk builds for it.
\<close>

fun files_below :: "string \<Rightarrow> fs_tree \<Rightarrow> (string list \<times> string) list"
and files_below_entries :: "string \<Rightarrow> (dirent \<times> fs_tree) list \<Rightarrow> (string list \<times> string) list" where
  "files_below dir (ReaddirFails e) = []"
| "files_below dir (Entries entries) = files_below_entries dir entries"
| "files_below_entries dir [] = []"
| "files_below_entries dir ((entry, sub) # rest) =
     (if isFile entry then [([], path_join [dir, name entry])]
      else if isDirectory entry then
        map (\<lambda>(ds, p). (name entry # ds, p)) (files_below (path_join [dir, name entry]) sub)
      else []) @ files_below_entries dir rest"

text \<open>\<open>p\<close> is a file of the listing reached through directories none of which is skipped.\<close>

definition reached :: "string \<Rightarrow> (string list \<times> string) list \<Rightarrow> bool" where
  "reached p fs = (\<exists>ds. (ds, p) \<in> set fs \<and> set ds \<inter> set skipped_directories = {})"

definition search_files_handler ::
  "'w node_env \<Rightarrow> string \<Rightarrow> string \<Rightarrow> real option \<Rightarrow> ('w, ToolResult) io" where
  "search_files_handler env directory pattern maxResults_arg =
     (let searchDir = safePath env directory;
          maxResults = (case maxResults_arg of None \<Rightarrow> 50 | Some n \<Rightarrow> n)
      in io_try
           (let regexStr = replace_stars (escape_specials pattern)
            in io_bind (io_read (\<lambda>w. new_RegExp env regexStr ''i'')) (\<lambda>regex.
                 io_bind
                   (io_read (\<lambda>w. Inr (walkAndMatch searchDir (fs_readdir env searchDir w)
                                          regex [] maxResults)))
                   (\<lambda>results.
                      if length results = 0 then
                        io_return (ok (''No files matching '' @ quoted pattern @ '' found in '' @
                                       quoted searchDir @ ''.''))
                      else
                        (let header = ''Found '' @ show_nat (length results) @
                               '' match(es) for '' @ quoted pattern @ '' in '' @
                               quoted searchDir @ '':\<newline>''
                         in io_return
                              (ok (header @
                                   join_with ''\<newline>'' (map (\<lambda>r. ''  '' @ r) results)))))))
           (\<lambda>e. io_return (err (''Search failed: '' @ message e))))"

subsection \<open>get\_file\_info\<close>

definition mime_table :: "(string \<times> string) list" where
  "mime_table =
     [(''.ts'', ''text/typescript''), (''.tsx'', ''text/typescript''),
      (''.js'', ''text/javascript''), (''.mjs'', ''text/javascript''),
      (''.json'', ''application/json''), (''.md'', ''text/markdown''),
      (''.txt'', ''text/plain''), (''.html'', ''text/html''), (''.css'', ''text/css''),
      (''.png'', ''image/png''), (''.jpg'', ''image/jpeg''), (''.jpeg'', ''image/jpeg''),
      (''.gif'', ''image/gif''), (''.svg'', ''image/svg+xml''),
      (''.pdf'', ''application/pdf''), (''.zip'', ''application/zip''),
      (''.py'', ''text/x-python''), (''.rs'', ''text/x-rust''), (''.go'', ''text/x-go''),
      (''.sh'', ''text/x-shellscript''), (''.yaml'', ''text/yaml''), (''.yml'', ''text/yaml''),
      (''.toml'', ''text/toml''), (''.csv'', ''text/csv'')]"

definition guessMime :: "string \<Rightarrow> string" where
  "guessMime filePath =
     (let ext = toLowerCase (path_extname filePath)
      in case map_of mime_table ext of
           Some m \<Rightarrow> m
         | None \<Rightarrow> ''application/octet-stream'')"

text \<open>The lines of the report; the three dates are printed in this order and may throw.\<close>

definition file_info :: "string \<Rightarrow> stats \<Rightarrow> js_error + string" where
  "file_info filePath stats =
     (let type = (if st_isDirectory stats then ''directory''
                  else if st_isSymbolicLink stats then ''symlink'' else ''file'');
          mime = guessMime filePath;
          sizeBytes = st_size stats
      in case toISOString (st_birthtime stats) of
           Inl e \<Rightarrow> Inl e
         | Inr created \<Rightarrow>
        (case toISOString (st_mtime stats) of
           Inl e \<Rightarrow> Inl e
         | Inr modified \<Rightarrow>
        (case toISOString (st_atime stats) of
           Inl e \<Rightarrow> Inl e
         | Inr accessed \<Rightarrow>
             Inr (join_with ''\<newline>''
                    [''Path:           '' @ filePath,
                     ''Type:           '' @ type,
                     ''MIME (guessed): '' @ mime,
                     ''Size:           '' @ show_nat sizeBytes @ '' bytes  ('' @
                        toFixed sizeBytes 1024 2 @ '' KB)'',
                     ''Created:        '' @ created,
                     ''Modified:       '' @ modified,
                     ''Accessed:       '' @ accessed,
                     ''Permissions:    '' @ to_radix 8 (st_mode stats mod 512) @ '' (octal)'']))))"

definition get_file_info_handler :: "'w node_env \<Rightarrow> string \<Rightarrow> ('w, ToolResult) io" where
  "get_file_info_handler env path =
     (let filePath = safePath env path
      in io_try
           (io_bind (io_read (fs_stat env filePath)) (\<lambda>stats.
              io_bind (io_read (\<lambda>w. file_info filePath stats)) (\<lambda>info.
                io_return (ok info))))
           (\<lambda>e. io_return (err (''Could not stat path: '' @ message e))))"

subsection \<open>delete\_file\<close>

definition delete_file_handler :: "'w node_env \<Rightarrow> string \<Rightarrow> ('w, ToolResult) io" where
  "delete_file_handler env path =
     (let filePath = safePath env path
      in io_try
           (io_bind (io_read (fs_stat env filePath)) (\<lambda>stats.
              if st_isDirectory stats then
                io_return (err (quoted filePath @ '' is a directory. This tool only deletes files.''))
              else
                io_bind (fs_unlink env filePath) (\<lambda>_.
                  io_return (ok (''Deleted file: '' @ quoted filePath @ ''.'')))))
           (\<lambda>e. io_return (err (''Could not delete file: '' @ message e))))"

subsection \<open>The tool table and its input schemas\<close>

text \<open>
  An argument map is a \<open>Record<string, unknown>\<close> of JSON values; a key that is absent
  reads as \<open>undefined\<close>. A schema lists the type of each property and the required keys.
\<close>

datatype json =
    JNull
  | JBool bool
  | JNumber real
  | JString string
  | JArray "json list"
  | JObject "(string \<times> json) list"

type_synonym args = "string \<Rightarrow> json option"

datatype prop_type = TString | TStringEnum "string list" | TNumber | TBoolean

record inputSchema =
  properties :: "(string \<times> prop_type) list"
  required :: "string list"



text \<open>
  The casts \<open>args.x as string\<close>, \<open>as boolean | undefined\<close> and so on are unchecked in
  TypeScript. The embedding follows the handlers on the values the casts name and gives
  \<open>None\<close> (no statement about the handler) for an argument map outside them; the
  dispatcher validates against the schema before it calls a handler.
\<close>

fun as_string :: "json option \<Rightarrow> string option" where
  "as_string (Some (JString s)) = Some s"
| "as_string _ = None"

fun as_boolean :: "json option \<Rightarrow> bool option" where
  "as_boolean (Some (JBool b)) = Some b"
| "as_boolean _ = None"

fun as_number :: "json option \<Rightarrow> real option" where
  "as_number (Some (JNumber n)) = Some n"
| "as_number _ = None"

definition or_undefined :: "(json option \<Rightarrow> 'a option) \<Rightarrow> json option \<Rightarrow> 'a option option" where
  "or_undefined cast v = (case v of None \<Rightarrow> Some None | Some _ \<Rightarrow> map_option Some (cast v))"

record 'w ToolDefinition =
  tool_name :: string
  tool_inputSchema :: inputSchema
  handler :: "'w node_env \<Rightarrow> args \<Rightarrow> ('w, ToolResult) io option"

definition readFileTool :: "'w ToolDefinition" where
  "readFileTool =
     \<lparr>tool_name = ''read_file'',
      tool_inputSchema =
        \<lparr>properties = [(''path'', TString), (''encoding'', TStringEnum [''utf8'', ''base64''])],
         required = [''path'']\<rparr>,
      handler = (\<lambda>env a.
        case (as_string (a ''path''), or_undefined as_string (a ''encoding'')) of
          (Some path, Some encoding) \<Rightarrow> Some (read_file_handler env path encoding)
        | _ \<Rightarrow> None)\<rparr>"

definition writeFileTool :: "'w ToolDefinition" where
  "writeFileTool =
     \<lparr>tool_name = ''write_file'',
      tool_inputSchema =
        \<lparr>properties = [(''path'', TString), (''content'', TString), (''append'', TBoolean)],
         required = [''path'', ''content'']\<rparr>,
      handler = (\<lambda>env a.
        case (as_string (a ''path''), as_string (a ''content''),
              or_undefined as_boolean (a ''append'')) of
          (Some path, Some content_arg, Some append_arg) \<Rightarrow>
            Some (write_file_handler env path content_arg append_arg)
        | _ \<Rightarrow> None)\<rparr>"

definition listDirectoryTool :: "'w ToolDefinition" where
  "listDirectoryTool =
     \<lparr>tool_name = ''list_directory'',
      tool_inputSchema =
        \<lparr>properties = [(''path'', TString), (''recursive'', TBoolean)],
         required = [''path'']\<rparr>,
      handler = (\<lambda>env a.
        case (as_string (a ''path''), or_undefined as_boolean (a ''recursive'')) of
          (Some path, Some recursive) \<Rightarrow> Some (list_directory_handler env path recursive)
        | _ \<Rightarrow> None)\<rparr>"

definition searchFilesTool :: "'w ToolDefinition" where
  "searchFilesTool =
     \<lparr>tool_name = ''search_files'',
      tool_inputSchema =
        \<lparr>properties = [(''directory'', TString), (''pattern'', TString), (''maxResults'', TNumber)],
         required = [''directory'', ''pattern'']\<rparr>,
      handler = (\<lambda>env a.
        case (as_string (a ''directory''), as_string (a ''pattern''),
              or_undefined as_number (a ''maxResults'')) of
          (Some directory, Some pattern, Some maxResults) \<Rightarrow>
            Some (search_files_handler env directory pattern maxResults)
        | _ \<Rightarrow> None)\<rparr>"

definition getFileInfoTool :: "'w ToolDefinition" where
  "getFileInfoTool =
     \<lparr>tool_name = ''get_file_info'',
      tool_inputSchema = \<lparr>properties = [(''path'', TString)], required = [''path'']\<rparr>,
      handler = (\<lambda>env a.
        case as_string (a ''path'') of
          Some path \<Rightarrow> Some (get_file_info_handler env path)
        | None \<Rightarrow> None)\<rparr>"

definition deleteFileTool :: "'w ToolDefinition" where
  "deleteFileTool =
     \<lparr>tool_name = ''delete_file'',
      tool_inputSchema = \<lparr>properties = [(''path'', TString)], required = [''path'']\<rparr>,
      handler = (\<lambda>env a.
        case as_string (a ''path'') of
          Some path \<Rightarrow> Some (delete_file_handler env path)
        | None \<Rightarrow> None)\<rparr>"

definition ALL_TOOLS :: "'w ToolDefinition list" where
  "ALL_TOOLS =
     [readFileTool, writeFileTool, listDirectoryTool, searchFilesTool, getFileInfoTool,
      deleteFileTool]"


section \<open>prompts.ts\<close>

datatype role = User | Assistant

record PromptMessage =
  pm_role :: role
  pm_content :: content_block

text \<open>The argument map of a prompt is a \<open>Record<string, string>\<close>.\<close>

type_synonym prompt_args = "string \<Rightarrow> string option"

text \<open>JavaScript truthiness of a \<open>string | null\<close>: neither \<open>null\<close> nor the empty string.\<close>

definition truthy :: "string option \<Rightarrow> bool" where
  "truthy v = (case v of None \<Rightarrow> False | Some s \<Rightarrow> s \<noteq> [])"

subsection \<open>review-file\<close>

definition review_file_generate :: "'w node_env \<Rightarrow> prompt_args \<Rightarrow> ('w, PromptMessage list) io" where
  "review_file_generate env a =
     (let filePath = path_resolve (cwd env)
                       [cwd env, (case a ''path'' of None \<Rightarrow> [] | Some p \<Rightarrow> p)];
          focus = (case a ''focus'' of None \<Rightarrow> ''all'' | Some f \<Rightarrow> f)
      in io_bind
           (io_try (io_read (fs_readFile env filePath (Some ''utf8'')))
              (\<lambda>_. io_return (''(Could not read file '' @ em_dash @
                                 '' it may not exist or is binary)'')))
           (\<lambda>fileContent.
              let focusInstruction =
                    (if focus = ''all'' then
                       ''Cover: code quality, correctness, security, performance, and readability.''
                     else ''Focus especially on **'' @ focus @
                          ''** concerns, but note any critical issues in other areas too.'')
              in io_return
                   [\<lparr>pm_role = User,
                     pm_content = TextContent
                       (''Please perform a thorough code review of the following file.\<newline>\<newline>'' @
                        ''**File:** `'' @ filePath @ ''`\<newline>'' @
                        ''**Review focus:** '' @ focus @ ''\<newline>\<newline>'' @
                        focusInstruction @ ''\<newline>\<newline>'' @
                        ''--- File Content ---\<newline>```\<newline>'' @ fileContent @
                        ''\<newline>```'')\<rparr>]))"

subsection \<open>summarize-directory\<close>

definition tree_ignored :: "string list" where
  "tree_ignored = [''node_modules'', ''.git'', ''dist'', ''.cache'', ''__pycache__'']"

text \<open>
  \<open>buildTree\<close>: nothing is read below \<open>maxDepth\<close>; a rejected \<open>readdir\<close> throws out of
  the whole recursion. \<open>"  ".repeat(depth)\<close> is the indentation.
\<close>

fun buildTree :: "string \<Rightarrow> string \<Rightarrow> fs_tree \<Rightarrow> nat \<Rightarrow> nat \<Rightarrow> js_error + string"
and buildTree_loop ::
  "string \<Rightarrow> string \<Rightarrow> (dirent \<times> fs_tree) list \<Rightarrow> nat \<Rightarrow> nat \<Rightarrow> string list \<Rightarrow>
     js_error + string list" where
  "buildTree base dir tree depth maxDepth =
     (if depth > maxDepth then Inr []
      else
        (case tree of
           ReaddirFails e \<Rightarrow> Inl e
         | Entries entries \<Rightarrow>
             (case buildTree_loop base dir entries depth maxDepth [] of
                Inl e \<Rightarrow> Inl e
              | Inr lines \<Rightarrow> Inr (join_with ''\<newline>'' lines))))"
| "buildTree_loop base dir [] depth maxDepth lines = Inr lines"
| "buildTree_loop base dir ((entry, sub) # rest) depth maxDepth lines =
     (let indent = concat (replicate depth ''  '')
      in if name entry \<in> set tree_ignored then
           buildTree_loop base dir rest depth maxDepth lines
         else if isDirectory entry then
           (let lines1 = lines @ [indent @ name entry @ ''/'']
            in case buildTree base (path_join [dir, name entry]) sub (depth + 1) maxDepth of
                 Inl e \<Rightarrow> Inl e
               | Inr subtree \<Rightarrow>
                   buildTree_loop base dir rest depth maxDepth
                     (if subtree \<noteq> [] then lines1 @ [subtree] else lines1))
         else buildTree_loop base dir rest depth maxDepth (lines @ [indent @ name entry]))"

definition summarize_directory_generate ::
  "'w node_env \<Rightarrow> prompt_args \<Rightarrow> ('w, PromptMessage list) io" where
  "summarize_directory_generate env a =
     (let dirPath = path_resolve (cwd env)
                      [cwd env, (case a ''path'' of None \<Rightarrow> ''.'' | Some p \<Rightarrow> p)]
      in io_bind
           (io_try (io_read (\<lambda>w. buildTree dirPath dirPath (fs_readdir env dirPath w) 0 3))
              (\<lambda>_. io_return ''(Could not read directory)''))
           (\<lambda>tree.
              io_return
                [\<lparr>pm_role = User,
                  pm_content = TextContent
                    (''Please analyse the following project directory structure and provide:\<newline>\<newline>'' @
                     ''1. **Project purpose** '' @ em_dash @
                       '' What does this project/folder do?\<newline>'' @
                     ''2. **Architecture overview** '' @ em_dash @
                       '' How is the code organised?\<newline>'' @
                     ''3. **Key files/folders** '' @ em_dash @
                       '' What does each important entry do?\<newline>'' @
                     ''4. **Technology stack** '' @ em_dash @
                       '' Languages, frameworks, tools used.\<newline>'' @
                     ''5. **Entry points** '' @ em_dash @
                       '' Where does execution start?\<newline>\<newline>'' @
                     ''**Directory:** `'' @ dirPath @ ''`\<newline>\<newline>'' @
                     ''--- Directory Tree ---\<newline>'' @ tree)\<rparr>]))"

subsection \<open>find-and-explain\<close>

definition find_ignored :: "string list" where
  "find_ignored = [''node_modules'', ''.git'', ''dist'']"

fun findFirst :: "string \<Rightarrow> fs_tree \<Rightarrow> string \<Rightarrow> nat \<Rightarrow> nat \<Rightarrow> js_error + string option"
and findFirst_loop ::
  "string \<Rightarrow> (dirent \<times> fs_tree) list \<Rightarrow> string \<Rightarrow> nat \<Rightarrow> nat \<Rightarrow> js_error + string option" where
  "findFirst dir tree filename depth maxDepth =
     (if depth > maxDepth then Inr None
      else
        (case tree of
           ReaddirFails e \<Rightarrow> Inl e
         | Entries entries \<Rightarrow> findFirst_loop dir entries filename depth maxDepth))"
| "findFirst_loop dir [] filename depth maxDepth = Inr None"
| "findFirst_loop dir ((entry, sub) # rest) filename depth maxDepth =
     (let fullPath = path_join [dir, name entry]
      in if isFile entry \<and> name entry = filename then Inr (Some fullPath)
         else if isDirectory entry \<and> name entry \<notin> set find_ignored then
           (case findFirst fullPath sub filename (depth + 1) maxDepth of
              Inl e \<Rightarrow> Inl e
            | Inr found \<Rightarrow>
                if truthy found then Inr found
                else findFirst_loop dir rest filename depth maxDepth)
         else findFirst_loop dir rest filename depth maxDepth)"

text \<open>
  The \<open>try\<close> block assigns \<open>foundPath\<close> and then \<open>fileContent\<close>; the empty \<open>catch\<close> keeps
  what was assigned before the throw. \<open>find_and_read\<close> is that block with its \<open>catch\<close>:
  the two variables as they stand after it.
\<close>

definition find_and_read ::
  "'w node_env \<Rightarrow> string \<Rightarrow> string \<Rightarrow> 'w \<Rightarrow> string option \<times> string" where
  "find_and_read env searchDir filename w =
     (case findFirst searchDir (fs_readdir env searchDir w) filename 0 5 of
        Inl _ \<Rightarrow> (None, ''(File not found)'')
      | Inr foundPath \<Rightarrow>
          (case foundPath of
             None \<Rightarrow> (foundPath, ''(File not found)'')
           | Some p \<Rightarrow>
               if truthy foundPath then
                 (case fs_readFile env p (Some ''utf8'') w of
                    Inl _ \<Rightarrow> (foundPath, ''(File not found)'')
                  | Inr fileContent \<Rightarrow> (foundPath, fileContent))
               else (foundPath, ''(File not found)'')))"

definition find_and_explain_generate ::
  "'w node_env \<Rightarrow> prompt_args \<Rightarrow> ('w, PromptMessage list) io" where
  "find_and_explain_generate env a =
     (let filename = (case a ''filename'' of None \<Rightarrow> [] | Some f \<Rightarrow> f);
          searchDir = path_resolve (cwd env)
                        [cwd env, (case a ''directory'' of None \<Rightarrow> ''.'' | Some d \<Rightarrow> d)]
      in io_bind (io_read (\<lambda>w. Inr (find_and_read env searchDir filename w)))
           (\<lambda>(foundPath, fileContent).
              io_return
                [\<lparr>pm_role = User,
                  pm_content = TextContent
                    (''I found the file `'' @
                     (case foundPath of None \<Rightarrow> filename | Some p \<Rightarrow> p) @ ''`. '' @
                     ''Please explain what it does in plain English:\<newline>\<newline>'' @
                     ''- What is its purpose?\<newline>'' @
                     ''- What are the most important parts?\<newline>'' @
                     ''- Are there any non-obvious patterns or tricks?\<newline>\<newline>'' @
                     ''--- File Content ---\<newline>```\<newline>'' @ fileContent @
                     ''\<newline>```'')\<rparr>]))"

subsection \<open>The prompt table\<close>

record PromptArgument =
  pa_name :: string
  pa_required :: bool

record 'w PromptDefinition =
  prompt_name :: string
  arguments :: "PromptArgument list"
  generate :: "'w node_env \<Rightarrow> prompt_args \<Rightarrow> ('w, PromptMessage list) io"

definition reviewFilePrompt :: "'w PromptDefinition" where
  "reviewFilePrompt =
     \<lparr>prompt_name = ''review-file'',
      arguments = [\<lparr>pa_name = ''path'', pa_required = True\<rparr>,
                   \<lparr>pa_name = ''focus'', pa_required = False\<rparr>],
      generate = review_file_generate\<rparr>"

definition summarizeDirectoryPrompt :: "'w PromptDefinition" where
  "summarizeDirectoryPrompt =
     \<lparr>prompt_name = ''summarize-directory'',
      arguments = [\<lparr>pa_name = ''path'', pa_required = True\<rparr>],
      generate = summarize_directory_generate\<rparr>"

definition findAndExplainPrompt :: "'w PromptDefinition" where
  "findAndExplainPrompt =
     \<lparr>prompt_name = ''find-and-explain'',
      arguments = [\<lparr>pa_name = ''filename'', pa_required = True\<rparr>,
                   \<lparr>pa_name = ''directory'', pa_required = False\<rparr>],
      generate = find_and_explain_generate\<rparr>"

definition ALL_PROMPTS :: "'w PromptDefinition list" where
  "ALL_PROMPTS = [reviewFilePrompt, summarizeDirectoryPrompt, findAndExplainPrompt]"


section \<open>index.ts and the capability registry\<close>

text \<open>
  index.ts registers the six tools and the three prompts when the module is loaded, and
  \<open>main\<close> then registers the static resources and the \<open>file://{path}\<close> template and
  connects the transport. The registry itself (\<open>McpServer\<close>) comes from the SDK package,
  which is not among the sources; its operations are taken from the specification.
\<close>

datatype registry_error =
    DuplicateNameError string
  | DuplicateUriError string
  | NotFoundError string

record ResourceTemplate =
  uriPattern :: string
  rt_description :: string
  rt_mimeType :: string

record ('t, 'p) registry =
  reg_tools :: "(string \<times> 't) list"
  reg_prompts :: "(string \<times> 'p) list"
  reg_static :: "ResourceInfo list"
  reg_templates :: "ResourceTemplate list"

definition empty_registry :: "('t, 'p) registry" where
  "empty_registry = \<lparr>reg_tools = [], reg_prompts = [], reg_static = [], reg_templates = []\<rparr>"

text \<open>
  Modelled from the spec: \<open>registerTool(spec)\<close> of the Capability Registry, missing from
  the sources: it fails with \<open>DuplicateNameError\<close> if a tool of that name already exists;
  the specs are kept in registration order.
\<close>

definition registerTool ::
  "('t, 'p) registry \<Rightarrow> string \<Rightarrow> 't \<Rightarrow> registry_error + ('t, 'p) registry" where
  "registerTool reg n spec =
     (if n \<in> set (map fst (reg_tools reg)) then Inl (DuplicateNameError n)
      else Inr (reg\<lparr>reg_tools := reg_tools reg @ [(n, spec)]\<rparr>))"

text \<open>
  Modelled from the spec: \<open>registerPrompt(spec)\<close>, missing from the sources: it fails with
  \<open>DuplicateNameError\<close> on a duplicate name.
\<close>

definition registerPrompt ::
  "('t, 'p) registry \<Rightarrow> string \<Rightarrow> 'p \<Rightarrow> registry_error + ('t, 'p) registry" where
  "registerPrompt reg n spec =
     (if n \<in> set (map fst (reg_prompts reg)) then Inl (DuplicateNameError n)
      else Inr (reg\<lparr>reg_prompts := reg_prompts reg @ [(n, spec)]\<rparr>))"

text \<open>
  Modelled from the spec: \<open>registerResource(spec)\<close>, missing from the sources: static and
  template variants are both accepted; it fails on a duplicate static URI.
\<close>

definition registerResource ::
  "('t, 'p) registry \<Rightarrow> ResourceInfo \<Rightarrow> registry_error + ('t, 'p) registry" where
  "registerResource reg r =
     (if ri_uri r \<in> set (map ri_uri (reg_static reg)) then Inl (DuplicateUriError (ri_uri r))
      else Inr (reg\<lparr>reg_static := reg_static reg @ [r]\<rparr>))"

definition registerResourceTemplate ::
  "('t, 'p) registry \<Rightarrow> ResourceTemplate \<Rightarrow> registry_error + ('t, 'p) registry" where
  "registerResourceTemplate reg t = Inr (reg\<lparr>reg_templates := reg_templates reg @ [t]\<rparr>)"

text \<open>
  Modelled from the spec: \<open>resolveResource(uri)\<close>, missing from the sources: static
  exact match first; else the first-registered template whose pattern matches, with the
  pattern variables bound; \<open>NotFoundError\<close> if none match. How a pattern matches a URI
  is a parameter: \<open>matches pattern uri\<close> gives the bindings of a match.
\<close>

datatype resolved =
    StaticMatch ResourceInfo
  | TemplateMatch ResourceTemplate "(string \<times> string) list"

fun first_template ::
  "(string \<Rightarrow> string \<Rightarrow> (string \<times> string) list option) \<Rightarrow> ResourceTemplate list \<Rightarrow> string \<Rightarrow>
     resolved option" where
  "first_template matches [] uri = None"
| "first_template matches (t # ts) uri =
     (case matches (uriPattern t) uri of
        Some bindings \<Rightarrow> Some (TemplateMatch t bindings)
      | None \<Rightarrow> first_template matches ts uri)"

definition resolveResource ::
  "(string \<Rightarrow> string \<Rightarrow> (string \<times> string) list option) \<Rightarrow> ('t, 'p) registry \<Rightarrow> string \<Rightarrow>
     registry_error + resolved" where
  "resolveResource matches reg uri =
     (case find (\<lambda>r. ri_uri r = uri) (reg_static reg) of
        Some r \<Rightarrow> Inr (StaticMatch r)
      | None \<Rightarrow>
          (case first_template matches (reg_templates reg) uri of
             Some m \<Rightarrow> Inr m
           | None \<Rightarrow> Inl (NotFoundError uri)))"

text \<open>
  A run of registrations stops at the first one that fails, as the exception thrown by
  the call ends the start-up.
\<close>

fun register_tools ::
  "('t, 'p) registry \<Rightarrow> (string \<times> 't) list \<Rightarrow> registry_error + ('t, 'p) registry" where
  "register_tools reg [] = Inr reg"
| "register_tools reg ((n, spec) # rest) =
     (case registerTool reg n spec of
        Inl e \<Rightarrow> Inl e
      | Inr reg' \<Rightarrow> register_tools reg' rest)"

fun register_prompts ::
  "('t, 'p) registry \<Rightarrow> (string \<times> 'p) list \<Rightarrow> registry_error + ('t, 'p) registry" where
  "register_prompts reg [] = Inr reg"
| "register_prompts reg ((n, spec) # rest) =
     (case registerPrompt reg n spec of
        Inl e \<Rightarrow> Inl e
      | Inr reg' \<Rightarrow> register_prompts reg' rest)"

fun register_resources ::
  "('t, 'p) registry \<Rightarrow> ResourceInfo list \<Rightarrow> registry_error + ('t, 'p) registry" where
  "register_resources reg [] = Inr reg"
| "register_resources reg (r # rest) =
     (case registerResource reg r of
        Inl e \<Rightarrow> Inl e
      | Inr reg' \<Rightarrow> register_resources reg' rest)"

text \<open>
  Modelled from the spec: the session of the Session/Lifecycle Manager, missing from the
  sources: it starts \<open>Unconnected\<close> and becomes \<open>Negotiating\<close> when the transport
  attaches.
\<close>

datatype session_state = Unconnected | Negotiating | Ready | Closed

record ('t, 'p) server =
  srv_registry :: "('t, 'p) registry"
  srv_state :: session_state

definition connect :: "('t, 'p) server \<Rightarrow> ('t, 'p) server" where
  "connect srv = srv\<lparr>srv_state := Negotiating\<rparr>"

text \<open>
  A start-up in the shape of index.ts: the tools are registered on the fresh server one
  after the other, then the prompts, then the resources and the template, and only then
  is the transport connected. A registration that fails ends the start-up with its
  error and no session.
\<close>

definition start_server ::
  "(string \<times> 't) list \<Rightarrow> (string \<times> 'p) list \<Rightarrow> ResourceInfo list \<Rightarrow> ResourceTemplate \<Rightarrow>
     registry_error + ('t, 'p) server" where
  "start_server tool_specs prompt_specs static_resources template =
     (case register_tools empty_registry tool_specs of
        Inl e \<Rightarrow> Inl e
      | Inr r1 \<Rightarrow>
     (case register_prompts r1 prompt_specs of
        Inl e \<Rightarrow> Inl e
      | Inr r2 \<Rightarrow>
     (case register_resources r2 static_resources of
        Inl e \<Rightarrow> Inl e
      | Inr r3 \<Rightarrow>
     (case registerResourceTemplate r3 template of
        Inl e \<Rightarrow> Inl e
      | Inr r4 \<Rightarrow> Inr (connect \<lparr>srv_registry = r4, srv_state = Unconnected\<rparr>)))))"

text \<open>
  The registrations index.ts makes: each tool and prompt under its literal name, with
  the entry of \<open>ALL_TOOLS\<close> or \<open>ALL_PROMPTS\<close> that \<open>find\<close> gives for that name; the
  static resources of \<open>buildStaticResources\<close>; the template \<open>file://{path}\<close>.
\<close>

definition index_tool_specs :: "(string \<times> 'w ToolDefinition option) list" where
  "index_tool_specs =
     map (\<lambda>n. (n, find (\<lambda>t. tool_name t = n) ALL_TOOLS))
       [''read_file'', ''write_file'', ''list_directory'', ''search_files'', ''get_file_info'',
        ''delete_file'']"

definition index_prompt_specs :: "(string \<times> 'w PromptDefinition option) list" where
  "index_prompt_specs =
     map (\<lambda>n. (n, find (\<lambda>p. prompt_name p = n) ALL_PROMPTS))
       [''review-file'', ''summarize-directory'', ''find-and-explain'']"

definition file_template :: ResourceTemplate where
  "file_template =
     \<lparr>uriPattern = ''file://{path}'',
      rt_description = ''Read any file by its absolute path via a file:// URI.'',
      rt_mimeType = ''text/plain''\<rparr>"

definition index_main ::
  "'w node_env \<Rightarrow> 'w \<Rightarrow>
     registry_error + ('w ToolDefinition option, 'w PromptDefinition option) server" where
  "index_main env w =
     start_server index_tool_specs index_prompt_specs (buildStaticResources env w) file_template"


section \<open>An example runtime\<close>

text \<open>
  A small file system to run the handlers on: the working directory \<open>/w\<close> holds
  \<open>a.png\<close>, \<open>node_modules/x.js\<close>, \<open>src/b.ts\<close> and \<open>src/c.ts\<close>. The state is the list of
  files with their contents; a write puts its file in front, \<open>unlink\<close> removes it. Calls
  on a path that names nothing reject with Node's ENOENT error. Its \<open>RegExp\<close> knows the
  expression \<open>.*\<close> (true of every name) and plain alphanumeric words (a case-insensitive
  substring test); it rejects the rest as it would a malformed expression.
\<close>

definition enotdir :: "string \<Rightarrow> string \<Rightarrow> js_error" where
  "enotdir syscall p = JsError (''ENOTDIR: not a directory, '' @ syscall @ '' '' @ quoted p)"

definition example_stats :: "bool \<Rightarrow> nat \<Rightarrow> stats" where
  "example_stats dir n =
     \<lparr>st_isDirectory = dir, st_isSymbolicLink = False, st_size = n,
      st_mode = (if dir then 16877 else 33188),
      st_birthtime = Date (Some 1700000000000),
      st_mtime = Date (Some 1700000000000),
      st_atime = Date (Some 1700000000000)\<rparr>"

definition example_files :: "(string \<times> string) list" where
  "example_files =
     [(''/w/a.png'', ''PNG''), (''/w/node_modules/x.js'', ''x''),
      (''/w/src/b.ts'', ''let b''), (''/w/src/c.ts'', ''let c'')]"

definition example_dirs :: "string list" where
  "example_dirs = [''/'', ''/w'', ''/w/node_modules'', ''/w/src'']"

definition example_modules_tree :: fs_tree where
  "example_modules_tree =
     Entries [(Dirent ''x.js'' RegularFile,
               ReaddirFails (enotdir ''scandir'' ''/w/node_modules/x.js''))]"

definition example_src_tree :: fs_tree where
  "example_src_tree =
     Entries [(Dirent ''b.ts'' RegularFile, ReaddirFails (enotdir ''scandir'' ''/w/src/b.ts'')),
              (Dirent ''c.ts'' RegularFile, ReaddirFails (enotdir ''scandir'' ''/w/src/c.ts''))]"

definition example_tree :: fs_tree where
  "example_tree =
     Entries [(Dirent ''a.png'' RegularFile, ReaddirFails (enotdir ''scandir'' ''/w/a.png'')),
              (Dirent ''node_modules'' Directory, example_modules_tree),
              (Dirent ''src'' Directory, example_src_tree)]"

definition example_RegExp :: "string \<Rightarrow> string \<Rightarrow> js_error + (string \<Rightarrow> bool)" where
  "example_RegExp source flags =
     (if source = ''.*'' then Inr (\<lambda>s. True)
      else if source \<noteq> [] \<and>
              list_all (\<lambda>c. c \<in> set ''abcdefghijklmnopqrstuvwxyzABCDEFGHIJKLMNOPQRSTUVWXYZ0123456789'')
                source
      then Inr (\<lambda>s. includes_str (toLowerCase s) (toLowerCase source))
      else Inl (JsError (''Invalid regular expression: /'' @ source @ ''/'' @ flags)))"

definition example_env :: "(string \<times> string) list node_env" where
  "example_env =
     \<lparr>cwd = ''/w'',
      fs_access = (\<lambda>p w. if map_of w p \<noteq> None \<or> p \<in> set example_dirs then Inr ()
                          else Inl (enoent ''access'' p)),
      fs_stat = (\<lambda>p w. case map_of w p of
                          Some c \<Rightarrow> Inr (example_stats False (length c))
                        | None \<Rightarrow> if p \<in> set example_dirs then Inr (example_stats True 4096)
                                  else Inl (enoent ''stat'' p)),
      fs_readFile = (\<lambda>p encoding w. case map_of w p of
                                       Some c \<Rightarrow> Inr c
                                     | None \<Rightarrow> Inl (enoent ''open'' p)),
      fs_readdir = (\<lambda>p w. if p = ''/w'' then example_tree
                           else if p = ''/w/node_modules'' then example_modules_tree
                           else if p = ''/w/src'' then example_src_tree
                           else ReaddirFails (enoent ''scandir'' p)),
      fs_mkdir = (\<lambda>p w. (Inr (), w)),
      fs_writeFile = (\<lambda>p c w. (Inr (), (p, c) # w)),
      fs_appendFile = (\<lambda>p c w.
                         (Inr (), (p, (case map_of w p of None \<Rightarrow> [] | Some old \<Rightarrow> old) @ c) # w)),
      fs_unlink = (\<lambda>p w. if map_of w p \<noteq> None then (Inr (), filter (\<lambda>f. fst f \<noteq> p) w)
                          else (Inl (enoent ''unlink'' p), w)),
      new_RegExp = example_RegExp\<rparr>"

text \<open>
  How the examples match a template against a URI: \<open>file://{path}\<close> matches every URI
  that starts with \<open>file://\<close> and binds \<open>path\<close> to the rest.
\<close>

definition example_matches :: "string \<Rightarrow> string \<Rightarrow> (string \<times> string) list option" where
  "example_matches pattern uri =
     (if pattern = ''file://{path}'' \<and> startsWith uri ''file://''
      then Some [(''path'', drop (length ''file://'') uri)]
      else None)"

section \<open>Verified properties\<close>

lemmas io_defs = io_bind_def io_try_def io_read_def io_return_def io_throw_def

subsection \<open>The static resource catalogue\<close>


subsection \<open>Reading resources\<close>

text \<open>
  C3, as amended. For a URI \<open>file://p/\<close> (the path part ends with the separator),
  \<open>readResource\<close> reads the directory \<open>p\<close> (\<open>/\<close> when \<open>p\<close> is empty): when \<open>readdir\<close>
  rejects, the rejection is thrown as it is; when it lists entries, the result is the
  text listing of those entries with MIME type \<open>text/plain\<close> and no blob. So a result,
  when there is one, is never a blob; but there is a result only for a directory that
  can be read.
\<close>

theorem readResource_directory_uri:
  "(\<forall>e. fs_readdir env (if p \<noteq> [] then p else ''/'') w = ReaddirFails e \<longrightarrow>
        readResource env (''file://'' @ p @ ''/'') w = Inl e) \<and>
   (\<forall>entries. fs_readdir env (if p \<noteq> [] then p else ''/'') w = Entries entries \<longrightarrow>
        readResource env (''file://'' @ p @ ''/'') w =
          Inr \<lparr>rc_uri = ''file://'' @ p @ ''/'', rc_mimeType = ''text/plain'',
               rc_text = Some (join_with ''\<newline>''
                 ((''Directory listing: '' @ (if p \<noteq> [] then p else ''/'') @ ''\<newline>'') #
                  map (listing_line \<circ> fst) entries)),
               rc_blob = None\<rparr>) \<and>
   (\<forall>rc. readResource env (''file://'' @ p @ ''/'') w = Inr rc \<longrightarrow>
        rc_blob rc = None \<and> rc_mimeType rc = ''text/plain'' \<and> rc_text rc \<noteq> None)"
  by (cases "fs_readdir env (if p \<noteq> [] then p else ''/'') w")
     (auto simp: readResource_def startsWith_def endsWith_def buildDirectoryListing_def Let_def)

theorem readResource_directory_uri_witness:
  "fs_readdir example_env ''/w'' example_files = example_tree \<and>
   readResource example_env ''file:///w/'' example_files =
     Inr \<lparr>rc_uri = ''file:///w/'', rc_mimeType = ''text/plain'',
          rc_text = Some (''Directory listing: /w\<newline>\<newline>'' @
                          ''[FILE]  a.png\<newline>[DIR]   node_modules\<newline>[DIR]   src''),
          rc_blob = None\<rparr>"
proof -
  have r: "fs_readdir example_env ''/w'' example_files = example_tree"
    by (simp add: example_env_def)
  have "readResource example_env (''file://'' @ ''/w'' @ ''/'') example_files =
          Inr \<lparr>rc_uri = ''file://'' @ ''/w'' @ ''/'', rc_mimeType = ''text/plain'',
               rc_text = Some (join_with ''\<newline>''
                 ((''Directory listing: '' @ ''/w'' @ ''\<newline>'') #
                  map (listing_line \<circ> fst)
                    [(Dirent ''a.png'' RegularFile, ReaddirFails (enotdir ''scandir'' ''/w/a.png'')),
                     (Dirent ''node_modules'' Directory, example_modules_tree),
                     (Dirent ''src'' Directory, example_src_tree)])),
               rc_blob = None\<rparr>"
    using readResource_directory_uri [of example_env "''/w''" example_files] r
    by (simp add: example_tree_def)
  then show ?thesis
    using r by (simp add: listing_line_def isDirectory_def)
qed

theorem readResource_missing_directory_counterexample:
  "readResource example_env ''file:///nope/'' example_files = Inl (enoent ''scandir'' ''/nope'')"
  by (simp add: readResource_def startsWith_def endsWith_def buildDirectoryListing_def
      example_env_def Let_def)



subsection \<open>Tool handlers\<close>

lemma includes_str_iff: "includes_str s p \<longleftrightarrow> (\<exists>a b. s = a @ p @ b)"
proof (induction s)
  case Nil
  then show ?case by auto
next
  case (Cons c s)
  show ?case
  proof
    assume "includes_str (c # s) p"
    then consider "startsWith (c # s) p" | "includes_str s p" by auto
    then show "\<exists>a b. c # s = a @ p @ b"
    proof cases
      case 1
      then have "c # s = [] @ p @ drop (length p) (c # s)"
        unfolding startsWith_def by (metis append_Nil append_take_drop_id)
      then show ?thesis by blast
    next
      case 2
      then obtain a b where "s = a @ p @ b" using Cons.IH by blast
      then have "c # s = (c # a) @ p @ b" by simp
      then show ?thesis by blast
    qed
  next
    assume "\<exists>a b. c # s = a @ p @ b"
    then obtain a b where ab: "c # s = a @ p @ b" by blast
    show "includes_str (c # s) p"
    proof (cases a)
      case Nil
      then have "startsWith (c # s) p" using ab by (simp add: startsWith_def)
      then show ?thesis by simp
    next
      case (Cons x a')
      then have "s = a' @ p @ b" using ab by simp
      then have "includes_str s p" using Cons.IH by blast
      then show ?thesis by simp
    qed
  qed
qed

lemma get_file_info_stat_fails:
  "fs_stat env (safePath env p) w = Inl e \<Longrightarrow>
   get_file_info_handler env p w = (Inr (err (''Could not stat path: '' @ message e)), w)"
  by (simp add: get_file_info_handler_def io_defs Let_def)

text \<open>
  \<open>path.resolve\<close> leaves an absolute path in normal form as it is: a path \<open>/s1/.../sn\<close>
  whose segments are not empty, not \<open>.\<close> or \<open>..\<close>, and hold no separator.
\<close>

lemma split_on_nonempty: "split_on d s \<noteq> []"
  by (induction s) (auto split: list.splits)

lemma split_on_sep: "split_on d (d # rest) = [] # split_on d rest"
  using split_on_nonempty [of d rest] by (auto split: list.splits)

lemma split_on_no_sep: "d \<notin> set s \<Longrightarrow> split_on d (s @ d # rest) = s # split_on d rest"
proof (induction s)
  case Nil
  then show ?case by (simp add: split_on_sep del: split_on.simps(2))
next
  case (Cons c s)
  then show ?case by auto
qed

lemma split_on_whole: "d \<notin> set s \<Longrightarrow> split_on d s = [s]"
  by (induction s) auto

lemma join_with_Cons:
  "join_with sep (x # xs) = (if xs = [] then x else x @ sep @ join_with sep xs)"
  by (cases xs) auto

lemma split_on_join:
  "xs \<noteq> [] \<Longrightarrow> \<forall>s \<in> set xs. d \<notin> set s \<Longrightarrow> split_on d (join_with [d] xs) = xs"
proof (induction xs)
  case Nil
  then show ?case by simp
next
  case (Cons x xs)
  show ?case
  proof (cases "xs = []")
    case True
    then show ?thesis using Cons.prems by (simp add: split_on_whole)
  next
    case False
    then have "split_on d (join_with [d] xs) = xs" using Cons by simp
    then show ?thesis using Cons.prems False
      by (simp add: join_with_Cons split_on_no_sep del: split_on.simps)
  qed
qed

lemma normalize_clean:
  "\<forall>s \<in> set xs. s \<noteq> ''.'' \<and> s \<noteq> ''..'' \<Longrightarrow>
   normalize_segments allow xs acc = acc @ filter (\<lambda>s. s \<noteq> []) xs"
  by (induction xs arbitrary: acc) auto

lemma join_with_slashes:
  "segs \<noteq> [] \<Longrightarrow> join_with ''/'' ([] # segs @ [[]]) = ''/'' @ join_with ''/'' segs @ ''/''"
proof (induction segs)
  case Nil
  then show ?case by simp
next
  case (Cons s segs)
  have "join_with ''/'' ((s # segs) @ [[]]) = join_with ''/'' (s # segs) @ ''/''"
  proof (induction segs arbitrary: s)
    case Nil
    then show ?case by simp
  next
    case (Cons t segs)
    then show ?case by simp
  qed
  then show ?case by (simp add: join_with_Cons)
qed

lemma resolve_normalized_absolute:
  assumes "\<forall>s \<in> set segs. s \<noteq> [] \<and> s \<noteq> ''.'' \<and> s \<noteq> ''..'' \<and> CHR ''/'' \<notin> set s"
  shows "path_resolve wd [wd, ''/'' @ join_with ''/'' segs] = ''/'' @ join_with ''/'' segs"
proof (cases "segs = []")
  case True
  then show ?thesis
    by (simp add: path_resolve_def isAbsolute_def startsWith_def normalizeString_def)
next
  case False
  let ?p = "''/'' @ join_with ''/'' segs"
  let ?xs = "[] # segs @ [[]]"
  have j: "?p @ ''/'' = join_with ''/'' ?xs"
    using join_with_slashes [OF False] by simp
  have "\<forall>s \<in> set ?xs. CHR ''/'' \<notin> set s" using assms by auto
  then have sp: "split_on CHR ''/'' (join_with ''/'' ?xs) = ?xs"
    using split_on_join [of ?xs "CHR ''/''"] by simp
  have "\<forall>s \<in> set ?xs. s \<noteq> ''.'' \<and> s \<noteq> ''..''" using assms by auto
  then have nz: "normalize_segments False ?xs [] = filter (\<lambda>s. s \<noteq> []) ?xs"
    using normalize_clean [of ?xs False "[]"] by simp
  have f: "filter (\<lambda>s. s \<noteq> []) ?xs = segs"
    using assms by (simp add: filter_id_conv)
  have n: "normalizeString (?p @ ''/'') False = join_with ''/'' segs"
    unfolding normalizeString_def j sp nz f ..
  have r: "resolve_args (rev [wd, ?p] @ [wd]) = (?p @ ''/'', True)"
    by (simp add: isAbsolute_def startsWith_def)
  show ?thesis
    unfolding path_resolve_def r using n by simp
qed

text \<open>
  C2, as amended. When the path argument names no entry, that is, \<open>fs.stat\<close> of the
  path it resolves to rejects with Node's ENOENT error for that path, the
  \<open>get_file_info\<close> handler throws nothing: it returns a result with \<open>isError: true\<close>
  whose text contains the resolved absolute path \<open>path.resolve(cwd, path)\<close>. That is
  the argument itself when the argument is an absolute path in normal form; an argument
  written otherwise need not occur in the text.
\<close>

theorem get_file_info_missing_path:
  assumes "a ''path'' = Some (JString p)"
    and "fs_stat env (safePath env p) w = Inl (enoent ''stat'' (safePath env p))"
  shows "(\<exists>run msg. handler getFileInfoTool env a = Some run \<and>
           run w = (Inr \<lparr>content = [TextContent msg], isError = Some True\<rparr>, w) \<and>
           includes_str msg (safePath env p)) \<and>
         (p = ''/'' @ join_with ''/'' segs \<longrightarrow>
          (\<forall>s \<in> set segs. s \<noteq> [] \<and> s \<noteq> ''.'' \<and> s \<noteq> ''..'' \<and> CHR ''/'' \<notin> set s) \<longrightarrow>
            safePath env p = p)"
proof -
  let ?P = "safePath env p"
  have "''ERROR: '' @ ''Could not stat path: '' @ message (enoent ''stat'' ?P) =
        (''ERROR: Could not stat path: ENOENT: no such file or directory, stat '' @ [CHR 0x27]) @
        ?P @ [CHR 0x27]"
    by (simp add: enoent_def quoted_def)
  then have "includes_str (''ERROR: '' @ ''Could not stat path: '' @ message (enoent ''stat'' ?P)) ?P"
    unfolding includes_str_iff by blast
  then have 1: "\<exists>run msg. handler getFileInfoTool env a = Some run \<and>
           run w = (Inr \<lparr>content = [TextContent msg], isError = Some True\<rparr>, w) \<and>
           includes_str msg (safePath env p)"
    using assms get_file_info_stat_fails [OF assms(2)]
    by (simp add: getFileInfoTool_def err_def)
  have 2: "p = ''/'' @ join_with ''/'' segs \<longrightarrow>
          (\<forall>s \<in> set segs. s \<noteq> [] \<and> s \<noteq> ''.'' \<and> s \<noteq> ''..'' \<and> CHR ''/'' \<notin> set s) \<longrightarrow>
            safePath env p = p"
  proof (intro impI)
    assume p: "p = ''/'' @ join_with ''/'' segs"
      and c: "\<forall>s \<in> set segs. s \<noteq> [] \<and> s \<noteq> ''.'' \<and> s \<noteq> ''..'' \<and> CHR ''/'' \<notin> set s"
    show "safePath env p = p"
      unfolding safePath_def p by (rule resolve_normalized_absolute [OF c])
  qed
  show ?thesis
    by (rule conjI [OF 1 2])
qed

theorem get_file_info_missing_path_witness:
  "[''path'' \<mapsto> JString ''/w/nope.txt''] ''path'' = Some (JString ''/w/nope.txt'') \<and>
   ''/w/nope.txt'' = ''/'' @ join_with ''/'' [''w'', ''nope.txt''] \<and>
   safePath example_env ''/w/nope.txt'' = ''/w/nope.txt'' \<and>
   fs_stat example_env ''/w/nope.txt'' example_files = Inl (enoent ''stat'' ''/w/nope.txt'') \<and>
   (\<exists>run msg. handler getFileInfoTool example_env [''path'' \<mapsto> JString ''/w/nope.txt''] = Some run \<and>
      run example_files = (Inr \<lparr>content = [TextContent msg], isError = Some True\<rparr>, example_files) \<and>
      includes_str msg ''/w/nope.txt'')"
proof -
  have p: "safePath example_env ''/w/nope.txt'' = ''/w/nope.txt''"
    by code_simp
  have s: "fs_stat example_env ''/w/nope.txt'' example_files = Inl (enoent ''stat'' ''/w/nope.txt'')"
    by (simp add: example_env_def example_files_def example_dirs_def)
  have a: "[''path'' \<mapsto> JString ''/w/nope.txt''] ''path'' = Some (JString ''/w/nope.txt'')"
    by simp
  have j: "''/w/nope.txt'' = ''/'' @ join_with ''/'' [''w'', ''nope.txt'']"
    by simp
  have "\<exists>run msg. handler getFileInfoTool example_env [''path'' \<mapsto> JString ''/w/nope.txt''] = Some run \<and>
      run example_files = (Inr \<lparr>content = [TextContent msg], isError = Some True\<rparr>, example_files) \<and>
      includes_str msg (safePath example_env ''/w/nope.txt'')"
    using get_file_info_missing_path [of "[''path'' \<mapsto> JString ''/w/nope.txt'']" "''/w/nope.txt''"
        example_env example_files, THEN conjunct1] a p s
    by simp
  then have "\<exists>run msg. handler getFileInfoTool example_env [''path'' \<mapsto> JString ''/w/nope.txt''] = Some run \<and>
      run example_files = (Inr \<lparr>content = [TextContent msg], isError = Some True\<rparr>, example_files) \<and>
      includes_str msg ''/w/nope.txt''"
    unfolding p .
  then show ?thesis
    by (intro conjI a j p s)
qed

text \<open>
  The argument \<open>./nope.txt\<close> in the working directory \<open>/w\<close>: the entry does not exist,
  the result is the error text about \<open>/w/nope.txt\<close>, and \<open>./nope.txt\<close> does not occur
  in it.
\<close>

theorem get_file_info_relative_path_counterexample:
  "fs_stat example_env (safePath example_env ''./nope.txt'') example_files =
     Inl (enoent ''stat'' (safePath example_env ''./nope.txt'')) \<and>
   get_file_info_handler example_env ''./nope.txt'' example_files =
     (Inr \<lparr>content = [TextContent (''ERROR: Could not stat path: ENOENT: no such file or directory, stat '' @
                                     quoted ''/w/nope.txt'')],
           isError = Some True\<rparr>, example_files) \<and>
   \<not> includes_str (''ERROR: Could not stat path: ENOENT: no such file or directory, stat '' @
                     quoted ''/w/nope.txt'') ''./nope.txt''"
  by code_simp






























subsection \<open>The search walk\<close>

lemma walk_full:
  "real (length results) \<ge> n \<Longrightarrow> walkAndMatch_loop dir es regex results n = results"
  by (cases es) auto

lemma walk_length:
  "length (walkAndMatch dir tree regex results n) \<le> max (length results) (nat \<lceil>n\<rceil>)"
  "length (walkAndMatch_loop dir es regex results n) \<le> max (length results) (nat \<lceil>n\<rceil>)"
proof (induction dir tree regex results n and dir es regex results n
       rule: walkAndMatch_walkAndMatch_loop.induct)
  case (1 dir tree regex results maxResults)
  then show ?case by (auto split: fs_tree.splits)
next
  case (2 dir regex results maxResults)
  then show ?case by simp
next
  case (3 dir entry sub rest regex results maxResults)
  show ?case
  proof (cases "real (length results) \<ge> maxResults")
    case True
    then show ?thesis by simp
  next
    case False
    then have lt: "length results < nat \<lceil>maxResults\<rceil>" by linarith
    show ?thesis
    proof (cases "isDirectory entry")
      case d: True
      show ?thesis
      proof (cases "name entry \<in> set skipped_directories")
        case True
        then show ?thesis using 3(1) [OF False refl d True] False d by (simp add: Let_def)
      next
        case nd: False
        have a: "length (walkAndMatch (path_join [dir, name entry]) sub regex results maxResults)
                   \<le> max (length results) (nat \<lceil>maxResults\<rceil>)"
          using 3(2) [OF False refl d nd] .
        have b: "length (walkAndMatch_loop dir rest regex
                    (walkAndMatch (path_join [dir, name entry]) sub regex results maxResults)
                    maxResults)
                 \<le> max (length (walkAndMatch (path_join [dir, name entry]) sub regex results
                                  maxResults)) (nat \<lceil>maxResults\<rceil>)"
          using 3(3) [OF False refl d nd] .
        show ?thesis using a b False d nd lt by (simp add: Let_def)
      qed
    next
      case nd: False
      show ?thesis
      proof (cases "isFile entry \<and> regex (name entry)")
        case True
        then show ?thesis using 3(4) [OF False refl nd True] False nd lt by (simp add: Let_def)
      next
        case nf: False
        then show ?thesis using 3(5) [OF False refl nd nf] False nd by (auto simp add: Let_def)
      qed
    qed
  qed
qed

lemma reached_append: "reached p (xs @ ys) \<longleftrightarrow> reached p xs \<or> reached p ys"
  by (auto simp: reached_def)

lemma reached_file: "reached p (([], q) # fs) \<longleftrightarrow> p = q \<or> reached p fs"
  by (auto simp: reached_def)

lemma reached_sub:
  "d \<notin> set skipped_directories \<Longrightarrow> reached p fs \<Longrightarrow>
   reached p (map (\<lambda>(ds, q). (d # ds, q)) fs)"
  by (force simp: reached_def)

lemma walk_members:
  "p \<in> set (walkAndMatch dir tree regex results n) \<Longrightarrow>
     p \<in> set results \<or> reached p (files_below dir tree)"
  "p \<in> set (walkAndMatch_loop dir es regex results n) \<Longrightarrow>
     p \<in> set results \<or> reached p (files_below_entries dir es)"
proof (induction dir tree regex results n and dir es regex results n
       arbitrary: p and p rule: walkAndMatch_walkAndMatch_loop.induct)
  case (1 dir tree regex results maxResults)
  then show ?case by (cases tree) (auto split: if_splits)
next
  case (2 dir regex results maxResults)
  then show ?case by simp
next
  case (3 dir entry sub rest regex results maxResults)
  show ?case
  proof (cases "real (length results) \<ge> maxResults")
    case True
    then show ?thesis using 3(6) by simp
  next
    case False
    show ?thesis
    proof (cases "isDirectory entry")
      case d: True
      then have nf: "\<not> isFile entry" by (simp add: isDirectory_def isFile_def)
      show ?thesis
      proof (cases "name entry \<in> set skipped_directories")
        case True
        then have "p \<in> set (walkAndMatch_loop dir rest regex results maxResults)"
          using 3(6) False d by (simp add: Let_def)
        then show ?thesis using 3(1) [OF False refl d True] by (auto simp: reached_append)
      next
        case nd: False
        let ?mid = "walkAndMatch (path_join [dir, name entry]) sub regex results maxResults"
        have "p \<in> set (walkAndMatch_loop dir rest regex ?mid maxResults)"
          using 3(6) False d nd by (simp add: Let_def)
        then consider "p \<in> set ?mid" | "reached p (files_below_entries dir rest)"
          using 3(3) [OF False refl d nd] by blast
        then show ?thesis
        proof cases
          case 1
          then consider "p \<in> set results"
            | "reached p (files_below (path_join [dir, name entry]) sub)"
            using 3(2) [OF False refl d nd] by blast
          then show ?thesis
          proof cases
            case 1
            then show ?thesis by simp
          next
            case 2
            then show ?thesis using d nf nd reached_sub [OF nd 2] by (simp add: reached_append)
          qed
        next
          case 2
          then show ?thesis by (simp add: reached_append)
        qed
      qed
    next
      case nd: False
      show ?thesis
      proof (cases "isFile entry \<and> regex (name entry)")
        case True
        then have "p \<in> set (walkAndMatch_loop dir rest regex
                              (results @ [path_join [dir, name entry]]) maxResults)"
          using 3(6) False nd by (simp add: Let_def)
        then show ?thesis using 3(4) [OF False refl nd True] True
          by (auto simp: reached_append reached_file)
      next
        case nf: False
        then have "p \<in> set (walkAndMatch_loop dir rest regex results maxResults)"
          using 3(6) False nd by (auto simp add: Let_def)
        then show ?thesis using 3(5) [OF False refl nd nf] by (auto simp: reached_append)
      qed
    qed
  qed
qed

lemma walk_unreadable:
  "walkAndMatch dir (ReaddirFails e) regex results n = results"
  "walkAndMatch_loop dir ((Dirent d Directory, ReaddirFails e) # rest) regex results n =
     walkAndMatch_loop dir rest regex results n"
  by (auto simp: walk_full isDirectory_def Let_def)

lemma search_files_ok:
  "new_RegExp env (replace_stars (escape_specials pat)) ''i'' = Inr regex \<Longrightarrow>
   \<exists>txt. search_files_handler env d pat n w = (Inr (ok txt), w) \<and>
     (walkAndMatch (safePath env d) (fs_readdir env (safePath env d) w) regex []
        (case n of None \<Rightarrow> 50 | Some m \<Rightarrow> m) \<noteq> [] \<longrightarrow>
      txt = ''Found '' @
        show_nat (length (walkAndMatch (safePath env d) (fs_readdir env (safePath env d) w)
          regex [] (case n of None \<Rightarrow> 50 | Some m \<Rightarrow> m))) @
        '' match(es) for '' @ quoted pat @ '' in '' @ quoted (safePath env d) @ '':\<newline>'' @
        join_with ''\<newline>'' (map (\<lambda>r. ''  '' @ r)
          (walkAndMatch (safePath env d) (fs_readdir env (safePath env d) w) regex []
             (case n of None \<Rightarrow> 50 | Some m \<Rightarrow> m))))"
proof -
  have e: "(@) ''  '' = (\<lambda>r. CHR '' '' # CHR '' '' # r)"
    by (rule ext) simp
  assume "new_RegExp env (replace_stars (escape_specials pat)) ''i'' = Inr regex"
  then show ?thesis
    by (auto simp: search_files_handler_def io_defs Let_def e simp del: walkAndMatch.simps)
qed

text \<open>
  C9, as amended. \<open>walkAndMatch\<close>, started with no results and the limit \<open>n\<close>, returns
  at most \<open>\<lceil>n\<rceil>\<close> paths (none for \<open>n \<le> 0\<close>), so at most \<open>n\<close> when \<open>n\<close> is a
  natural number. Every returned path is a regular file of the walked tree reached from
  the search root through directories none of which is named \<open>node_modules\<close>, \<open>.git\<close>,
  \<open>dist\<close> or \<open>.cache\<close> (the search root itself is not checked). A directory whose
  \<open>readdir\<close> rejects adds nothing and does not stop the walk, and once the pattern
  compiles the handler returns a success result: the \<open>Found ...\<close> text over exactly these
  paths, computed with the limit 50 when \<open>maxResults\<close> is absent.
\<close>

theorem walkAndMatch_bounded_and_skipping:
  "length (walkAndMatch dir tree regex [] n) \<le> nat \<lceil>n\<rceil> \<and>
   (n = real k \<longrightarrow> length (walkAndMatch dir tree regex [] n) \<le> k) \<and>
   (\<forall>p \<in> set (walkAndMatch dir tree regex [] n).
      \<exists>ds. (ds, p) \<in> set (files_below dir tree) \<and> set ds \<inter> set skipped_directories = {}) \<and>
   walkAndMatch dir (ReaddirFails e) regex results n = results \<and>
   walkAndMatch_loop dir ((Dirent d Directory, ReaddirFails e) # rest) regex results n =
     walkAndMatch_loop dir rest regex results n \<and>
   (new_RegExp env (replace_stars (escape_specials pat)) ''i'' = Inr regex \<longrightarrow>
      (\<exists>txt. search_files_handler env directory pat maxResults_arg w = (Inr (ok txt), w) \<and>
        (walkAndMatch (safePath env directory) (fs_readdir env (safePath env directory) w) regex []
           (case maxResults_arg of None \<Rightarrow> 50 | Some m \<Rightarrow> m) \<noteq> [] \<longrightarrow>
         txt = ''Found '' @
           show_nat (length (walkAndMatch (safePath env directory)
             (fs_readdir env (safePath env directory) w) regex []
             (case maxResults_arg of None \<Rightarrow> 50 | Some m \<Rightarrow> m))) @
           '' match(es) for '' @ quoted pat @ '' in '' @ quoted (safePath env directory) @
           '':\<newline>'' @
           join_with ''\<newline>'' (map (\<lambda>r. ''  '' @ r)
             (walkAndMatch (safePath env directory) (fs_readdir env (safePath env directory) w)
                regex [] (case maxResults_arg of None \<Rightarrow> 50 | Some m \<Rightarrow> m))))))"
proof -
  have a: "length (walkAndMatch dir tree regex [] n) \<le> nat \<lceil>n\<rceil>"
    using walk_length(1) [of dir tree regex "[]" n] by simp
  have b: "n = real k \<longrightarrow> length (walkAndMatch dir tree regex [] n) \<le> k"
    using a by auto
  have c: "\<forall>p \<in> set (walkAndMatch dir tree regex [] n).
      \<exists>ds. (ds, p) \<in> set (files_below dir tree) \<and> set ds \<inter> set skipped_directories = {}"
    using walk_members(1) [of _ dir tree regex "[]" n] by (auto simp: reached_def)
  have f: "new_RegExp env (replace_stars (escape_specials pat)) ''i'' = Inr regex \<longrightarrow>
      (\<exists>txt. search_files_handler env directory pat maxResults_arg w = (Inr (ok txt), w) \<and>
        (walkAndMatch (safePath env directory) (fs_readdir env (safePath env directory) w) regex []
           (case maxResults_arg of None \<Rightarrow> 50 | Some m \<Rightarrow> m) \<noteq> [] \<longrightarrow>
         txt = ''Found '' @
           show_nat (length (walkAndMatch (safePath env directory)
             (fs_readdir env (safePath env directory) w) regex []
             (case maxResults_arg of None \<Rightarrow> 50 | Some m \<Rightarrow> m))) @
           '' match(es) for '' @ quoted pat @ '' in '' @ quoted (safePath env directory) @
           '':\<newline>'' @
           join_with ''\<newline>'' (map (\<lambda>r. ''  '' @ r)
             (walkAndMatch (safePath env directory) (fs_readdir env (safePath env directory) w)
                regex [] (case maxResults_arg of None \<Rightarrow> 50 | Some m \<Rightarrow> m)))))"
    using search_files_ok [of env pat regex directory maxResults_arg w] by simp
  show ?thesis
    by (rule conjI [OF a conjI [OF b conjI [OF c conjI [OF walk_unreadable(1)
          conjI [OF walk_unreadable(2) f]]]]])
qed

theorem walkAndMatch_bounded_and_skipping_witness:
  "walkAndMatch ''/w'' example_tree (\<lambda>s. True) [] 2 = [''/w/a.png'', ''/w/src/b.ts''] \<and>
   length (walkAndMatch ''/w'' example_tree (\<lambda>s. True) [] 2) \<le> 2 \<and>
   (2 :: real) = real (2 :: nat) \<and>
   ''/w/src/b.ts'' \<in> set (walkAndMatch ''/w'' example_tree (\<lambda>s. True) [] 2) \<and>
   (\<exists>ds. (ds, ''/w/src/b.ts'') \<in> set (files_below ''/w'' example_tree) \<and>
         set ds \<inter> set skipped_directories = {}) \<and>
   new_RegExp example_env (replace_stars (escape_specials ''*'')) ''i'' = Inr (\<lambda>s. True) \<and>
   (\<exists>txt. search_files_handler example_env ''.'' ''*'' (Some 2) example_files =
      (Inr (ok txt), example_files))"
proof -
  have v: "walkAndMatch ''/w'' example_tree (\<lambda>s. True) [] 2 = [''/w/a.png'', ''/w/src/b.ts'']"
    by (simp add: example_tree_def example_src_tree_def example_modules_tree_def
        isDirectory_def isFile_def skipped_directories_def path_join_def path_normalize_def
        normalizeString_def isAbsolute_def startsWith_def endsWith_def Let_def)
  have x: "new_RegExp example_env (replace_stars (escape_specials ''*'')) ''i'' = Inr (\<lambda>s. True)"
    by (simp add: example_env_def example_RegExp_def replace_stars_def escape_specials_def)
  note T = walkAndMatch_bounded_and_skipping [where dir = "''/w''" and tree = example_tree
      and regex = "\<lambda>s. True" and n = 2 and k = 2 and env = example_env and pat = "''*''"
      and directory = "''.''" and maxResults_arg = "Some 2" and w = example_files]
  have m: "''/w/src/b.ts'' \<in> set (walkAndMatch ''/w'' example_tree (\<lambda>s. True) [] 2)"
    unfolding v by simp
  have l: "length (walkAndMatch ''/w'' example_tree (\<lambda>s. True) [] 2) \<le> 2"
    using T by simp
  have r: "\<exists>ds. (ds, ''/w/src/b.ts'') \<in> set (files_below ''/w'' example_tree) \<and>
         set ds \<inter> set skipped_directories = {}"
    using T m by blast
  have h: "\<exists>txt. search_files_handler example_env ''.'' ''*'' (Some 2) example_files =
      (Inr (ok txt), example_files)"
    using T x by blast
  have n: "(2 :: real) = real (2 :: nat)"
    by simp
  show ?thesis
    using v l n m r x h by blast
qed

text \<open>
  Two runs on the example tree: with \<open>maxResults = 2.5\<close> three paths come back, and a
  search rooted at \<open>/w/node_modules\<close> returns the file inside it.
\<close>

theorem walkAndMatch_counterexample:
  "walkAndMatch ''/w'' example_tree (\<lambda>s. True) [] (5 / 2) =
     [''/w/a.png'', ''/w/src/b.ts'', ''/w/src/c.ts''] \<and>
   fs_readdir example_env ''/w/node_modules'' example_files = example_modules_tree \<and>
   walkAndMatch ''/w/node_modules'' example_modules_tree (\<lambda>s. True) [] 50 =
     [''/w/node_modules/x.js'']"
  by (simp add: example_tree_def example_src_tree_def example_modules_tree_def example_env_def
        isDirectory_def isFile_def skipped_directories_def path_join_def path_normalize_def
        normalizeString_def isAbsolute_def startsWith_def endsWith_def Let_def)

subsection \<open>Prompt generators\<close>






subsection \<open>The registry\<close>

lemma registerTool_distinct:
  "distinct (map fst (reg_tools reg)) \<Longrightarrow> registerTool reg n spec = Inr reg' \<Longrightarrow>
   distinct (map fst (reg_tools reg'))"
  by (auto simp: registerTool_def split: if_splits)

lemma register_tools_distinct:
  "distinct (map fst (reg_tools reg)) \<Longrightarrow> register_tools reg specs = Inr reg' \<Longrightarrow>
   distinct (map fst (reg_tools reg'))"
proof (induction specs arbitrary: reg)
  case Nil
  then show ?case by simp
next
  case (Cons s specs)
  obtain n spec where s: "s = (n, spec)" by (cases s)
  from Cons.prems(2) obtain r1 where r1: "registerTool reg n spec = Inr r1"
    and rest: "register_tools r1 specs = Inr reg'"
    by (auto simp: s split: sum.splits)
  have "distinct (map fst (reg_tools r1))"
    using registerTool_distinct [OF Cons.prems(1) r1] .
  then show ?case using Cons.IH rest by blast
qed

lemma register_tools_names:
  "register_tools reg specs = Inr reg' \<Longrightarrow>
   map fst (reg_tools reg') = map fst (reg_tools reg) @ map fst specs"
proof (induction specs arbitrary: reg)
  case Nil
  then show ?case by simp
next
  case (Cons s specs)
  obtain n spec where s: "s = (n, spec)" by (cases s)
  from Cons.prems obtain r1 where r1: "registerTool reg n spec = Inr r1"
    and rest: "register_tools r1 specs = Inr reg'"
    by (auto simp: s split: sum.splits)
  have "map fst (reg_tools r1) = map fst (reg_tools reg) @ [n]"
    using r1 by (auto simp: registerTool_def split: if_splits)
  then show ?case using Cons.IH [OF rest] s by simp
qed

lemma register_tools_error:
  "register_tools reg specs = Inl e \<Longrightarrow> \<exists>n. e = DuplicateNameError n \<and> n \<in> set (map fst specs)"
proof (induction specs arbitrary: reg)
  case Nil
  then show ?case by simp
next
  case (Cons s specs)
  obtain n spec where s: "s = (n, spec)" by (cases s)
  show ?case
  proof (cases "registerTool reg n spec")
    case (Inl e')
    then show ?thesis using Cons.prems s by (auto simp: registerTool_def split: if_splits)
  next
    case (Inr r1)
    then show ?thesis using Cons.prems Cons.IH [of r1] s by auto
  qed
qed

lemma register_prompts_tools:
  "register_prompts reg specs = Inr reg' \<Longrightarrow> reg_tools reg' = reg_tools reg"
proof (induction specs arbitrary: reg)
  case Nil
  then show ?case by simp
next
  case (Cons s specs)
  obtain n spec where s: "s = (n, spec)" by (cases s)
  from Cons.prems obtain r1 where r1: "registerPrompt reg n spec = Inr r1"
    and rest: "register_prompts r1 specs = Inr reg'"
    by (auto simp: s split: sum.splits)
  have "reg_tools r1 = reg_tools reg"
    using r1 by (auto simp: registerPrompt_def split: if_splits)
  then show ?case using Cons.IH [OF rest] by simp
qed

lemma register_resources_tools:
  "register_resources reg rs = Inr reg' \<Longrightarrow> reg_tools reg' = reg_tools reg"
proof (induction rs arbitrary: reg)
  case Nil
  then show ?case by simp
next
  case (Cons r rs)
  from Cons.prems obtain r1 where r1: "registerResource reg r = Inr r1"
    and rest: "register_resources r1 rs = Inr reg'"
    by (auto split: sum.splits)
  have "reg_tools r1 = reg_tools reg"
    using r1 by (auto simp: registerResource_def split: if_splits)
  then show ?case using Cons.IH [OF rest] by simp
qed

lemma start_server_tools:
  assumes "start_server ts ps rs tpl = Inr srv"
  shows "distinct (map fst (reg_tools (srv_registry srv))) \<and>
         map fst (reg_tools (srv_registry srv)) = map fst ts \<and>
         srv_state srv = Negotiating"
proof -
  from assms obtain r1 r2 r3 r4 where
    1: "register_tools empty_registry ts = Inr r1" and
    2: "register_prompts r1 ps = Inr r2" and
    3: "register_resources r2 rs = Inr r3" and
    4: "registerResourceTemplate r3 tpl = Inr r4" and
    5: "srv = connect \<lparr>srv_registry = r4, srv_state = Unconnected\<rparr>"
    by (auto simp: start_server_def split: sum.splits)
  have "reg_tools r4 = reg_tools r1"
    using register_prompts_tools [OF 2] register_resources_tools [OF 3] 4
    by (auto simp: registerResourceTemplate_def)
  moreover have "distinct (map fst (reg_tools r1))"
    using register_tools_distinct [OF _ 1] by (simp add: empty_registry_def)
  moreover have "map fst (reg_tools r1) = map fst ts"
    using register_tools_names [OF 1] by (simp add: empty_registry_def)
  ultimately show ?thesis using 5 by (simp add: connect_def)
qed

lemma start_server_duplicate:
  fixes ts :: "(string \<times> 't) list" and ps :: "(string \<times> 'p) list"
  assumes "\<not> distinct (map fst ts)"
  shows "\<exists>n. start_server ts ps rs tpl = Inl (DuplicateNameError n)"
proof (cases "register_tools (empty_registry :: ('t, 'p) registry) ts")
  case (Inl e)
  then obtain n where "e = DuplicateNameError n"
    using register_tools_error [OF Inl] by blast
  then show ?thesis using Inl by (simp add: start_server_def)
next
  case (Inr r1)
  have "distinct (map fst (reg_tools r1))"
    using register_tools_distinct [OF _ Inr] by (simp add: empty_registry_def)
  moreover have "map fst (reg_tools r1) = map fst ts"
    using register_tools_names [OF Inr] by (simp add: empty_registry_def)
  ultimately show ?thesis using assms by simp
qed

text \<open>
  C6. On a registry that already holds a tool of the name, \<open>registerTool\<close> fails with
  \<open>DuplicateNameError\<close>, and a registration that succeeds keeps the tool names distinct.
  A start-up whose tool list names a tool twice therefore ends with \<open>DuplicateNameError\<close>
  and never reaches \<open>connect\<close>; a start-up that does reach it has registered the tools
  in order under distinct names, and its session is only then \<open>Negotiating\<close>.
\<close>

theorem registerTool_rejects_duplicates:
  fixes ts :: "(string \<times> 't) list" and ps :: "(string \<times> 'p) list"
  shows
  "(n \<in> set (map fst (reg_tools reg)) \<longrightarrow> registerTool reg n spec = Inl (DuplicateNameError n)) \<and>
   (distinct (map fst (reg_tools reg)) \<longrightarrow> registerTool reg n spec = Inr reg' \<longrightarrow>
      distinct (map fst (reg_tools reg'))) \<and>
   (\<not> distinct (map fst ts) \<longrightarrow> (\<exists>m. start_server ts ps rs tpl = Inl (DuplicateNameError m))) \<and>
   (start_server ts ps rs tpl = Inr srv \<longrightarrow>
      distinct (map fst (reg_tools (srv_registry srv))) \<and>
      map fst (reg_tools (srv_registry srv)) = map fst ts \<and>
      srv_state srv = Negotiating)"
proof -
  have a: "n \<in> set (map fst (reg_tools reg)) \<longrightarrow> registerTool reg n spec = Inl (DuplicateNameError n)"
    by (simp add: registerTool_def)
  have b: "distinct (map fst (reg_tools reg)) \<longrightarrow> registerTool reg n spec = Inr reg' \<longrightarrow>
      distinct (map fst (reg_tools reg'))"
    by (intro impI) (rule registerTool_distinct)
  have c: "\<not> distinct (map fst ts) \<longrightarrow> (\<exists>m. start_server ts ps rs tpl = Inl (DuplicateNameError m))"
    by (rule impI) (rule start_server_duplicate)
  have d: "start_server ts ps rs tpl = Inr srv \<longrightarrow>
      distinct (map fst (reg_tools (srv_registry srv))) \<and>
      map fst (reg_tools (srv_registry srv)) = map fst ts \<and>
      srv_state srv = Negotiating"
    by (rule impI) (rule start_server_tools)
  show ?thesis
    by (rule conjI [OF a conjI [OF b conjI [OF c d]]])
qed

text \<open>
  The start-up of index.ts on the example runtime: six tools, three prompts, the one
  static resource the example directory gives, and the template.
\<close>

lemma index_main_example:
  "index_main example_env example_files =
     Inr \<lparr>srv_registry =
            \<lparr>reg_tools = index_tool_specs, reg_prompts = index_prompt_specs,
             reg_static = [\<lparr>ri_uri = ''file:///w/'', ri_name = ''Working Directory'',
                            ri_description = ''Current working directory: /w'',
                            ri_mimeType = ''text/plain''\<rparr>],
             reg_templates = [file_template]\<rparr>,
          srv_state = Negotiating\<rparr>"
  by (simp add: index_main_def start_server_def index_tool_specs_def index_prompt_specs_def
      registerTool_def registerPrompt_def registerResource_def registerResourceTemplate_def
      empty_registry_def connect_def buildStaticResources_def push_candidate_def candidates_def
      example_env_def example_files_def example_dirs_def path_join_def path_normalize_def
      normalizeString_def isAbsolute_def startsWith_def endsWith_def Let_def)

text \<open>
  The witness: a second \<open>read_file\<close> on a registry that holds one, a start-up that lists
  \<open>read_file\<close> twice, and the start-up of index.ts itself.
\<close>

theorem registerTool_rejects_duplicates_witness:
  "''read_file'' \<in> set (map fst (reg_tools
      (\<lparr>reg_tools = [(''read_file'', ())], reg_prompts = [], reg_static = [],
        reg_templates = []\<rparr> :: (unit, unit) registry))) \<and>
   registerTool
      (\<lparr>reg_tools = [(''read_file'', ())], reg_prompts = [], reg_static = [],
        reg_templates = []\<rparr> :: (unit, unit) registry) ''read_file'' () =
     Inl (DuplicateNameError ''read_file'') \<and>
   \<not> distinct (map fst [(''read_file'', ()), (''read_file'', ())]) \<and>
   (start_server [(''read_file'', ()), (''read_file'', ())] ([] :: (string \<times> unit) list) []
      file_template :: registry_error + (unit, unit) server) =
     Inl (DuplicateNameError ''read_file'') \<and>
   (\<exists>srv. index_main example_env example_files = Inr srv \<and>
      distinct (map fst (reg_tools (srv_registry srv))) \<and>
      map fst (reg_tools (srv_registry srv)) =
        [''read_file'', ''write_file'', ''list_directory'', ''search_files'', ''get_file_info'',
         ''delete_file''] \<and>
      srv_state srv = Negotiating)"
proof -
  let ?reg = "\<lparr>reg_tools = [(''read_file'', ())], reg_prompts = [], reg_static = [],
        reg_templates = []\<rparr> :: (unit, unit) registry"
  have a: "''read_file'' \<in> set (map fst (reg_tools ?reg))"
    by simp
  have b: "registerTool ?reg ''read_file'' () = Inl (DuplicateNameError ''read_file'')"
    using registerTool_rejects_duplicates [where n = "''read_file''" and reg = ?reg and spec = "()"] a
    by blast
  have c: "\<not> distinct (map fst [(''read_file'', ()), (''read_file'', ())])"
    by simp
  have d: "(start_server [(''read_file'', ()), (''read_file'', ())] ([] :: (string \<times> unit) list) []
      file_template :: registry_error + (unit, unit) server) =
     Inl (DuplicateNameError ''read_file'')"
    by (simp add: start_server_def registerTool_def empty_registry_def)
  obtain srv where srv: "index_main example_env example_files = Inr srv"
    using index_main_example by simp
  have e: "distinct (map fst (reg_tools (srv_registry srv))) \<and>
      map fst (reg_tools (srv_registry srv)) =
        map fst (index_tool_specs :: (string \<times> (string \<times> string) list ToolDefinition option) list) \<and>
      srv_state srv = Negotiating"
    by (rule registerTool_rejects_duplicates [THEN conjunct2, THEN conjunct2, THEN conjunct2,
          THEN mp, OF srv [unfolded index_main_def]])
  have f: "map fst (index_tool_specs :: (string \<times> (string \<times> string) list ToolDefinition option) list) =
        [''read_file'', ''write_file'', ''list_directory'', ''search_files'', ''get_file_info'',
         ''delete_file'']"
    by (simp add: index_tool_specs_def)
  show ?thesis
    using a b c d srv e f by auto
qed

lemma find_static:
  "r \<in> set rs \<Longrightarrow>
   \<exists>r'. find (\<lambda>x. ri_uri x = ri_uri r) rs = Some r' \<and> r' \<in> set rs \<and> ri_uri r' = ri_uri r"
  by (induction rs) auto

lemma find_static_distinct:
  "r \<in> set rs \<Longrightarrow> distinct (map ri_uri rs) \<Longrightarrow> find (\<lambda>x. ri_uri x = ri_uri r) rs = Some r"
  by (induction rs) (auto simp: image_iff)

lemma register_tools_static:
  "register_tools reg specs = Inr reg' \<Longrightarrow> reg_static reg' = reg_static reg"
proof (induction specs arbitrary: reg)
  case Nil
  then show ?case by simp
next
  case (Cons s specs)
  obtain n spec where s: "s = (n, spec)" by (cases s)
  from Cons.prems obtain r1 where r1: "registerTool reg n spec = Inr r1"
    and rest: "register_tools r1 specs = Inr reg'"
    by (auto simp: s split: sum.splits)
  have "reg_static r1 = reg_static reg"
    using r1 by (auto simp: registerTool_def split: if_splits)
  then show ?case using Cons.IH [OF rest] by simp
qed

lemma register_prompts_static:
  "register_prompts reg specs = Inr reg' \<Longrightarrow> reg_static reg' = reg_static reg"
proof (induction specs arbitrary: reg)
  case Nil
  then show ?case by simp
next
  case (Cons s specs)
  obtain n spec where s: "s = (n, spec)" by (cases s)
  from Cons.prems obtain r1 where r1: "registerPrompt reg n spec = Inr r1"
    and rest: "register_prompts r1 specs = Inr reg'"
    by (auto simp: s split: sum.splits)
  have "reg_static r1 = reg_static reg"
    using r1 by (auto simp: registerPrompt_def split: if_splits)
  then show ?case using Cons.IH [OF rest] by simp
qed

lemma register_resources_distinct:
  "register_resources reg rs = Inr reg' \<Longrightarrow> distinct (map ri_uri (reg_static reg)) \<Longrightarrow>
   distinct (map ri_uri (reg_static reg'))"
proof (induction rs arbitrary: reg)
  case Nil
  then show ?case by simp
next
  case (Cons r rs)
  from Cons.prems obtain r1 where r1: "registerResource reg r = Inr r1"
    and rest: "register_resources r1 rs = Inr reg'"
    by (auto split: sum.splits)
  have "distinct (map ri_uri (reg_static r1))"
    using r1 Cons.prems(2) by (auto simp: registerResource_def split: if_splits)
  then show ?case using Cons.IH [OF rest] by simp
qed

lemma start_server_static:
  assumes "start_server ts ps rs tpl = Inr srv"
  shows "distinct (map ri_uri (reg_static (srv_registry srv)))"
proof -
  from assms obtain r1 r2 r3 r4 where
    1: "register_tools empty_registry ts = Inr r1" and
    2: "register_prompts r1 ps = Inr r2" and
    3: "register_resources r2 rs = Inr r3" and
    4: "registerResourceTemplate r3 tpl = Inr r4" and
    5: "srv = connect \<lparr>srv_registry = r4, srv_state = Unconnected\<rparr>"
    by (auto simp: start_server_def split: sum.splits)
  have "reg_static r2 = []"
    using register_tools_static [OF 1] register_prompts_static [OF 2]
    by (simp add: empty_registry_def)
  then have "distinct (map ri_uri (reg_static r3))"
    using register_resources_distinct [OF 3] by simp
  moreover have "reg_static r4 = reg_static r3"
    using 4 by (auto simp: registerResourceTemplate_def)
  ultimately show ?thesis using 5 by (simp add: connect_def)
qed

text \<open>
  C4. A URI that is the URI of a registered static resource resolves to a static entry
  with that URI, whatever the registered templates match: the templates are consulted
  only when no static entry has the URI. Registration keeps the static URIs distinct (a
  start-up that reaches \<open>connect\<close> has distinct static URIs), and then the entry the URI
  resolves to is that static resource itself.
\<close>

theorem static_match_wins:
  "(r \<in> set (reg_static reg) \<longrightarrow>
      (\<exists>r'. resolveResource matches reg (ri_uri r) = Inr (StaticMatch r') \<and>
            r' \<in> set (reg_static reg) \<and> ri_uri r' = ri_uri r)) \<and>
   (r \<in> set (reg_static reg) \<longrightarrow> distinct (map ri_uri (reg_static reg)) \<longrightarrow>
      resolveResource matches reg (ri_uri r) = Inr (StaticMatch r)) \<and>
   (start_server ts ps rs tpl = Inr srv \<longrightarrow>
      distinct (map ri_uri (reg_static (srv_registry srv))))"
proof -
  have a: "r \<in> set (reg_static reg) \<longrightarrow>
      (\<exists>r'. resolveResource matches reg (ri_uri r) = Inr (StaticMatch r') \<and>
            r' \<in> set (reg_static reg) \<and> ri_uri r' = ri_uri r)"
  proof
    assume "r \<in> set (reg_static reg)"
    then obtain r' where "find (\<lambda>x. ri_uri x = ri_uri r) (reg_static reg) = Some r'"
      and "r' \<in> set (reg_static reg)" and "ri_uri r' = ri_uri r"
      using find_static by blast
    then show "\<exists>r'. resolveResource matches reg (ri_uri r) = Inr (StaticMatch r') \<and>
            r' \<in> set (reg_static reg) \<and> ri_uri r' = ri_uri r"
      by (simp add: resolveResource_def)
  qed
  have b: "r \<in> set (reg_static reg) \<longrightarrow> distinct (map ri_uri (reg_static reg)) \<longrightarrow>
      resolveResource matches reg (ri_uri r) = Inr (StaticMatch r)"
    by (simp add: resolveResource_def find_static_distinct)
  have c: "start_server ts ps rs tpl = Inr srv \<longrightarrow>
      distinct (map ri_uri (reg_static (srv_registry srv)))"
    by (rule impI) (rule start_server_static)
  show ?thesis
    by (rule conjI [OF a conjI [OF b c]])
qed


text \<open>
  The witness: \<open>file:///w/\<close> is the static working-directory resource and also matches
  the template \<open>file://{path}\<close>; it resolves to the static entry.
\<close>

theorem static_match_wins_witness:
  "(\<exists>srv. index_main example_env example_files = Inr srv \<and>
      \<lparr>ri_uri = ''file:///w/'', ri_name = ''Working Directory'',
       ri_description = ''Current working directory: /w'', ri_mimeType = ''text/plain''\<rparr>
        \<in> set (reg_static (srv_registry srv)) \<and>
      reg_templates (srv_registry srv) = [file_template] \<and>
      distinct (map ri_uri (reg_static (srv_registry srv))) \<and>
      resolveResource example_matches (srv_registry srv) ''file:///w/'' =
        Inr (StaticMatch \<lparr>ri_uri = ''file:///w/'', ri_name = ''Working Directory'',
               ri_description = ''Current working directory: /w'',
               ri_mimeType = ''text/plain''\<rparr>)) \<and>
   example_matches (uriPattern file_template) ''file:///w/'' = Some [(''path'', ''/w/'')]"
proof -
  let ?wd = "\<lparr>ri_uri = ''file:///w/'', ri_name = ''Working Directory'',
       ri_description = ''Current working directory: /w'', ri_mimeType = ''text/plain''\<rparr>"
  obtain srv where srv: "index_main example_env example_files = Inr srv"
    and st: "reg_static (srv_registry srv) = [?wd]"
    and tp: "reg_templates (srv_registry srv) = [file_template]"
    using index_main_example by simp
  have m: "?wd \<in> set (reg_static (srv_registry srv))"
    by (simp add: st)
  note T = static_match_wins [where r = "?wd" and reg = "srv_registry srv"
      and matches = example_matches and ts = index_tool_specs and ps = index_prompt_specs
      and rs = "buildStaticResources example_env example_files" and tpl = file_template
      and srv = srv]
  have d: "distinct (map ri_uri (reg_static (srv_registry srv)))"
    using T srv by (simp add: index_main_def)
  have r: "resolveResource example_matches (srv_registry srv) ''file:///w/'' = Inr (StaticMatch ?wd)"
    using T m d by simp
  have x: "example_matches (uriPattern file_template) ''file:///w/'' = Some [(''path'', ''/w/'')]"
    by (simp add: example_matches_def file_template_def startsWith_def)
  show ?thesis
    using srv m tp d r x by blast
qed

end
